theory Spec2Isabelle
  imports Main
begin

section \<open>External collaborators\<close>

text \<open>
  The token signer and verifier, the credential hasher and the random identifier
  generators are libraries outside the repository.  Each operation receives them as a
  record of functions describing how they answer during that one call: \<open>uuidv4 n\<close> is
  the result of the n-th call of \<open>uuidv4()\<close> made by the operation, \<open>bcrypt_hash x c\<close>
  the digest the hasher (with the salt it draws) returns for \<open>x\<close> at cost \<open>c\<close>,
  \<open>jwt_verify t\<close> is \<open>None\<close> when verification throws.  \<open>js_Number\<close> is
  JavaScript's \<open>Number(string)\<close> and \<open>timestamp_in\<close> the database's conversion of a
  text parameter to a timestamp (\<open>None\<close> when it rejects the text).  SQL leaves the
  order of rows with equal sort keys to the database: \<open>tie_rank i\<close> is the rank by which
  the database places the row with identifier \<open>i\<close> among such rows during this call.
\<close>

datatype js_number = Integer int | NonInteger

datatype jwt_claims =
    AccessClaims string string string
  | RefreshClaims string

record jwt_identity =
  p_sub :: string
  p_displayName :: string

record collab =
  jwt_sign :: "jwt_claims \<Rightarrow> string"
  jwt_verify :: "string \<Rightarrow> jwt_identity option"
  bcrypt_hash :: "string \<Rightarrow> nat \<Rightarrow> string"
  bcrypt_compare :: "string \<Rightarrow> string \<Rightarrow> bool"
  uuidv4 :: "nat \<Rightarrow> string"
  gen_random_uuid :: string
  js_Number :: "string \<Rightarrow> js_number"
  timestamp_in :: "string \<Rightarrow> nat option"
  tie_rank :: "string \<Rightarrow> nat"

datatype error =
    UnauthorizedException string
  | ConflictException string
  | TypeError
  | DatabaseError

section \<open>Presence store\<close>

text \<open>
  The presence service keeps one Redis hash per user under the key
  \<open>presence:<userId>\<close>.  The Redis server is an external collaborator; the three
  commands the service issues (HSET, EXPIRE, HGET) are modelled after their documented
  behaviour on a store with a logical clock in milliseconds.  A key whose expiry time
  has passed is invisible to every command, and a write to it starts from a fresh hash
  without expiry.  Each call of the service happens at one reading of the clock; time
  passes between calls.  A lost connection to the Redis server is outside the model.
\<close>

record rhash =
  entries :: "string \<rightharpoonup> string"
  expire_at :: "nat option"

record redis =
  clock :: nat
  store :: "string \<rightharpoonup> rhash"

definition live :: "redis \<Rightarrow> string \<Rightarrow> rhash option" where
  "live r k =
     (case store r k of
        None \<Rightarrow> None
      | Some h \<Rightarrow>
          (case expire_at h of
             None \<Rightarrow> Some h
           | Some t \<Rightarrow> if clock r \<le> t then Some h else None))"

definition hset :: "redis \<Rightarrow> string \<Rightarrow> (string \<times> string) list \<Rightarrow> redis" where
  "hset r k fvs =
     (let h = (case live r k of
                 None \<Rightarrow> \<lparr>entries = Map.empty, expire_at = None\<rparr>
               | Some h \<Rightarrow> h)
      in r\<lparr>store := (store r)(k \<mapsto> h\<lparr>entries := entries h ++ map_of (rev fvs)\<rparr>)\<rparr>)"

definition expire :: "redis \<Rightarrow> string \<Rightarrow> nat \<Rightarrow> redis" where
  "expire r k secs =
     (case live r k of
        None \<Rightarrow> r
      | Some h \<Rightarrow> r\<lparr>store := (store r)(k \<mapsto> h\<lparr>expire_at := Some (clock r + secs * 1000)\<rparr>)\<rparr>)"

definition hget :: "redis \<Rightarrow> string \<Rightarrow> string \<Rightarrow> string option" where
  "hget r k f = (case live r k of None \<Rightarrow> None | Some h \<Rightarrow> entries h f)"

text \<open>\<open>PTTL\<close>: the remaining time to live of a visible key, in milliseconds.\<close>

definition pttl :: "redis \<Rightarrow> string \<Rightarrow> nat option" where
  "pttl r k =
     (case live r k of
        None \<Rightarrow> None
      | Some h \<Rightarrow> map_option (\<lambda>t. t - clock r) (expire_at h))"

text \<open>The passage of \<open>d\<close> milliseconds.\<close>

definition advance :: "nat \<Rightarrow> redis \<Rightarrow> redis" where
  "advance d r = r\<lparr>clock := clock r + d\<rparr>"

definition presence_key :: "string \<Rightarrow> string" where
  "presence_key userId = ''presence:'' @ userId"

definition setOnline :: "redis \<Rightarrow> string \<Rightarrow> string \<Rightarrow> redis" where
  "setOnline r userId socketId =
     expire
       (hset r (presence_key userId) [(''status'', ''online''), (''socketId'', socketId)])
       (presence_key userId) 60"

definition setOffline :: "redis \<Rightarrow> string \<Rightarrow> string \<Rightarrow> redis" where
  "setOffline r userId socketId =
     (let current = hget r (presence_key userId) ''socketId''
      in if current = Some socketId
         then expire (hset r (presence_key userId) [(''status'', ''offline'')])
                (presence_key userId) 60
         else r)"

definition getPresence :: "redis \<Rightarrow> string \<Rightarrow> string" where
  "getPresence r userId =
     (case hget r (presence_key userId) ''status'' of
        None \<Rightarrow> ''offline''
      | Some status \<Rightarrow> status)"

section \<open>Persistence store\<close>

text \<open>
  Modelled from the spec: the table declarations are not part of the sources, only the
  SQL statements that use them.  Each table is the list of its rows in insertion order,
  with the columns the statements name; \<open>created_at\<close> of a message is assigned by the
  store at insertion (``assigns a new identity and creation timestamp'') and is read
  here from the store's clock \<open>db_now\<close>, in milliseconds, which is also \<open>NOW()\<close>.
\<close>

record user_row =
  u_id :: string
  u_email :: string
  u_passwordHash :: string
  u_displayName :: string

record channel_row =
  c_id :: string
  c_name :: string
  c_is_group :: bool

record member_row =
  cm_id :: string
  cm_channel_id :: string
  cm_user_id :: string

record message =
  m_id :: string
  m_channelId :: string
  m_senderId :: string
  m_content :: string
  m_createdAt :: nat

record attachment_link =
  ma_id :: string
  ma_message_id :: string
  ma_attachment_id :: string

record refresh_row =
  rt_id :: string
  rt_user_id :: string
  rt_token_hash :: string
  rt_expires_at :: nat

record db =
  db_now :: nat
  users :: "user_row list"
  channels :: "channel_row list"
  channel_members :: "member_row list"
  messages :: "message list"
  message_attachments :: "attachment_link list"
  refresh_tokens :: "refresh_row list"

definition db_advance :: "nat \<Rightarrow> db \<Rightarrow> db" where
  "db_advance d s = s\<lparr>db_now := db_now s + d\<rparr>"

subsection \<open>UsersService\<close>

definition findByEmail :: "db \<Rightarrow> string \<Rightarrow> user_row option" where
  "findByEmail s email = find (\<lambda>u. u_email u = email) (users s)"

definition findById :: "db \<Rightarrow> string \<Rightarrow> user_row option" where
  "findById s ident = find (\<lambda>u. u_id u = ident) (users s)"

definition createUser :: "collab \<Rightarrow> db \<Rightarrow> string \<Rightarrow> string \<Rightarrow> string \<Rightarrow> db \<times> user_row" where
  "createUser X s email passwordHash displayName =
     (let row = \<lparr>u_id = uuidv4 X 0, u_email = email, u_passwordHash = passwordHash,
                  u_displayName = displayName\<rparr>
      in (s\<lparr>users := users s @ [row]\<rparr>, row))"

subsection \<open>MessagesService\<close>

record channel_summary =
  cs_id :: string
  cs_name :: string
  cs_isGroup :: bool
  cs_memberIds :: "string list"

definition createChannel ::
    "collab \<Rightarrow> db \<Rightarrow> string \<Rightarrow> bool \<Rightarrow> string list \<Rightarrow> db \<times> channel_summary" where
  "createChannel X s name isGroup memberIds =
     (let channelId = uuidv4 X 0;
          s1 = s\<lparr>channels := channels s @
                  [\<lparr>c_id = channelId, c_name = name, c_is_group = isGroup\<rparr>]\<rparr>;
          s2 = (if length memberIds > 0
                then s1\<lparr>channel_members := channel_members s1 @
                        map (\<lambda>(index, memberId).
                               \<lparr>cm_id = uuidv4 X (Suc index), cm_channel_id = channelId,
                                cm_user_id = memberId\<rparr>)
                            (enumerate 0 memberIds)\<rparr>
                else s1)
      in (s2, \<lparr>cs_id = channelId, cs_name = name, cs_isGroup = isGroup,
                cs_memberIds = memberIds\<rparr>))"

definition createMessage ::
    "collab \<Rightarrow> db \<Rightarrow> string \<Rightarrow> string \<Rightarrow> string \<Rightarrow> string list option \<Rightarrow> db \<times> message" where
  "createMessage X s channelId senderId content attachmentIds =
     (let messageId = uuidv4 X 0;
          row = \<lparr>m_id = messageId, m_channelId = channelId, m_senderId = senderId,
                 m_content = content, m_createdAt = db_now s\<rparr>;
          s1 = s\<lparr>messages := messages s @ [row]\<rparr>;
          s2 = (case attachmentIds of
                  None \<Rightarrow> s1
                | Some ids \<Rightarrow>
                    if length ids > 0
                    then s1\<lparr>message_attachments := message_attachments s1 @
                            map (\<lambda>(index, attachmentId).
                                   \<lparr>ma_id = uuidv4 X (Suc index), ma_message_id = messageId,
                                    ma_attachment_id = attachmentId\<rparr>)
                                (enumerate 0 ids)\<rparr>
                    else s1)
      in (s2, row))"

text \<open>
  \<open>ORDER BY created_at DESC\<close>: the rows by descending creation time.  The statement
  names no second key, so rows with equal creation time come in the order the database
  chooses, here by descending \<open>tie_rank\<close>; as the rank is any function of the row
  identifier, every order of such rows is covered.
\<close>

definition order_by_created_at_desc :: "collab \<Rightarrow> message list \<Rightarrow> message list" where
  "order_by_created_at_desc X rows =
     rev (sort_key m_createdAt (sort_key (\<lambda>m. tie_rank X (m_id m)) rows))"

text \<open>
  \<open>LIMIT $2\<close> takes a PostgreSQL \<open>bigint\<close>: a parameter that is not an integer, is
  negative or does not fit 64 bits makes the statement fail.
\<close>

definition listMessages ::
    "collab \<Rightarrow> db \<Rightarrow> string \<Rightarrow> js_number option \<Rightarrow> string option \<Rightarrow> error + message list" where
  "listMessages X s channelId limit before =
     (let lim = (case limit of None \<Rightarrow> Integer 50 | Some n \<Rightarrow> n);
          rows = filter (\<lambda>m. m_channelId m = channelId) (messages s);
          cursor = (case before of
                      None \<Rightarrow> Some None
                    | Some b \<Rightarrow> if b = [] then Some None
                               else map_option Some (timestamp_in X b))
      in case cursor of
           None \<Rightarrow> Inl DatabaseError
         | Some c \<Rightarrow>
             (let rows' = (case c of
                             None \<Rightarrow> rows
                           | Some t \<Rightarrow> filter (\<lambda>m. m_createdAt m < t) rows)
              in case lim of
                   NonInteger \<Rightarrow> Inl DatabaseError
                 | Integer n \<Rightarrow>
                     if n < 0 \<or> 2 ^ 63 \<le> n then Inl DatabaseError
                     else Inr (take (nat n) (order_by_created_at_desc X rows'))))"

text \<open>
  In the words of the specification: a page of at most \<open>n\<close> rows of the table that are
  eligible (of the channel, and before the cursor when there is one), each at most as
  often as the table holds it, newest first, such that every eligible row left out is no
  newer than the rows of the page, and is left out only when the page is full.
\<close>

definition newest_first_page ::
    "message list \<Rightarrow> (message \<Rightarrow> bool) \<Rightarrow> nat \<Rightarrow> message list \<Rightarrow> bool" where
  "newest_first_page table eligible n page \<longleftrightarrow>
     length page \<le> n \<and>
     (\<forall>m \<in> set page. m \<in> set table \<and> eligible m) \<and>
     (\<forall>m \<in> set page. count_list page m \<le> count_list table m) \<and>
     sorted_wrt (\<lambda>a b. m_createdAt b \<le> m_createdAt a) page \<and>
     (\<forall>m \<in> set table. eligible m \<and> m \<notin> set page \<longrightarrow>
        length page = n \<and> (\<forall>m' \<in> set page. m_createdAt m \<le> m_createdAt m'))"

subsection \<open>MessagesController\<close>

text \<open>\<open>Array.from(new Set(xs))\<close>: the distinct elements in order of first occurrence.\<close>

fun array_from_set :: "'a list \<Rightarrow> 'a list" where
  "array_from_set [] = []"
| "array_from_set (x # xs) = x # array_from_set (filter (\<lambda>y. y \<noteq> x) xs)"

definition controller_createChannel ::
    "collab \<Rightarrow> db \<Rightarrow> string \<Rightarrow> string list option \<Rightarrow> string \<Rightarrow> db \<times> channel_summary" where
  "controller_createChannel X s body_name body_memberIds req_userId =
     (let memberIds = array_from_set
            (req_userId # (case body_memberIds of None \<Rightarrow> [] | Some ids \<Rightarrow> ids))
      in createChannel X s body_name (length memberIds > 2) memberIds)"

definition controller_listMessages ::
    "collab \<Rightarrow> db \<Rightarrow> string \<Rightarrow> string option \<Rightarrow> string option \<Rightarrow> error + message list" where
  "controller_listMessages X s channelId limit before =
     listMessages X s channelId
       (Some (case limit of
                None \<Rightarrow> Integer 50
              | Some l \<Rightarrow> if l = [] then Integer 50 else js_Number X l))
       before"

section \<open>AuthService\<close>

record user_summary =
  us_id :: string
  us_email :: string
  us_displayName :: string

record auth_result =
  accessToken :: string
  refreshToken :: string
  user :: user_summary

definition seven_days :: nat where
  "seven_days = 7 * 24 * 60 * 60 * 1000"

text \<open>The refresh token is signed with \<open>expiresIn: "7d"\<close>; the hasher runs at cost 10.\<close>

definition issueTokens ::
    "collab \<Rightarrow> db \<Rightarrow> string \<Rightarrow> string \<Rightarrow> string \<Rightarrow> db \<times> auth_result" where
  "issueTokens X s userId email displayName =
     (let accessToken = jwt_sign X (AccessClaims userId email displayName);
          refreshToken = jwt_sign X (RefreshClaims userId);
          tokenHash = bcrypt_hash X refreshToken 10;
          s1 = s\<lparr>refresh_tokens := refresh_tokens s @
                  [\<lparr>rt_id = gen_random_uuid X, rt_user_id = userId,
                    rt_token_hash = tokenHash,
                    rt_expires_at = db_now s + seven_days\<rparr>]\<rparr>
      in (s1, \<lparr>accessToken = accessToken, refreshToken = refreshToken,
                user = \<lparr>us_id = userId, us_email = email,
                         us_displayName = displayName\<rparr>\<rparr>))"

definition register ::
    "collab \<Rightarrow> db \<Rightarrow> string \<Rightarrow> string \<Rightarrow> string \<Rightarrow> error + db \<times> auth_result" where
  "register X s email password displayName =
     (case findByEmail s email of
        Some existing \<Rightarrow> Inl (ConflictException ''Email already registered'')
      | None \<Rightarrow>
          (let passwordHash = bcrypt_hash X password 12;
               (s1, u) = createUser X s email passwordHash displayName
           in Inr (issueTokens X s1 (u_id u) (u_email u) (u_displayName u))))"

definition validateUser :: "collab \<Rightarrow> db \<Rightarrow> string \<Rightarrow> string \<Rightarrow> error + user_row" where
  "validateUser X s email password =
     (case findByEmail s email of
        None \<Rightarrow> Inl (UnauthorizedException ''Invalid credentials'')
      | Some u \<Rightarrow>
          if \<not> bcrypt_compare X password (u_passwordHash u)
          then Inl (UnauthorizedException ''Invalid credentials'')
          else Inr u)"

definition login :: "collab \<Rightarrow> db \<Rightarrow> string \<Rightarrow> string \<Rightarrow> error + db \<times> auth_result" where
  "login X s email password =
     (case validateUser X s email password of
        Inl e \<Rightarrow> Inl e
      | Inr u \<Rightarrow> Inr (issueTokens X s (u_id u) (u_email u) (u_displayName u)))"

definition refresh :: "collab \<Rightarrow> db \<Rightarrow> string \<Rightarrow> error + db \<times> auth_result" where
  "refresh X s presented =
     (let stored = filter (\<lambda>row. rt_expires_at row > db_now s) (refresh_tokens s)
      in case find (\<lambda>row. bcrypt_compare X presented (rt_token_hash row)) stored of
           None \<Rightarrow> Inl (UnauthorizedException ''Invalid refresh token'')
         | Some match \<Rightarrow>
             (case findById s (rt_user_id match) of
                None \<Rightarrow> Inl (UnauthorizedException ''User not found'')
              | Some u \<Rightarrow> Inr (issueTokens X s (u_id u) (u_email u) (u_displayName u))))"

text \<open>
  Referential integrity of the refresh-token table, as a property of a store: every
  record names an existing user.
\<close>

definition tokens_have_users :: "db \<Rightarrow> bool" where
  "tokens_have_users s \<longleftrightarrow>
     (\<forall>row \<in> set (refresh_tokens s). \<exists>u \<in> set (users s). u_id u = rt_user_id row)"

text \<open>
  Provenance of the refresh-token table: every record's hash is the digest that one of
  the listed collaborators made of the refresh token it signs for the record's user.
\<close>

definition issued_by :: "collab list \<Rightarrow> db \<Rightarrow> bool" where
  "issued_by W s \<longleftrightarrow>
     (\<forall>row \<in> set (refresh_tokens s). \<exists>Z \<in> set W.
        rt_token_hash row = bcrypt_hash Z (jwt_sign Z (RefreshClaims (rt_user_id row))) 10)"

section \<open>MessagesGateway\<close>

text \<open>
  The socket server is an external library.  Its state is the list of the sockets it
  has accepted, each with its identifier, the handshake's \<open>auth.token\<close>, the
  \<open>data.user\<close> slot, the rooms it has joined and whether it is still connected (a
  closed socket has left all its rooms), together with the events handed to the
  transport so far, each paired with the identifier of the socket it is addressed to.
\<close>

record socket_user =
  su_userId :: string
  su_displayName :: string

record socket =
  sid :: string
  auth_token :: "string option"
  data_user :: "socket_user option"
  rooms :: "string list"
  connected :: bool

datatype event =
    PresenceUpdate string string
  | ChannelJoined string
  | ChannelLeft string
  | TypingUpdate string string bool
  | MessageNew message

record server =
  sockets :: "socket list"
  outbox :: "(string \<times> event) list"
  presence :: redis
  database :: db

text \<open>
  Observations used to state the properties: the events handed to the transport between
  two states, and whether a socket identifier belongs to a connected socket, or to a
  connected socket that is in a room.
\<close>

definition emitted :: "server \<Rightarrow> server \<Rightarrow> (string \<times> event) list" where
  "emitted st st' = drop (length (outbox st)) (outbox st')"

definition is_connected :: "server \<Rightarrow> string \<Rightarrow> bool" where
  "is_connected st r = (\<exists>c \<in> set (sockets st). sid c = r \<and> connected c)"

definition subscribed :: "server \<Rightarrow> string \<Rightarrow> string \<Rightarrow> bool" where
  "subscribed st room r =
     (\<exists>c \<in> set (sockets st). sid c = r \<and> connected c \<and> room \<in> set (rooms c))"

definition lookup :: "server \<Rightarrow> string \<Rightarrow> socket option" where
  "lookup st cid = find (\<lambda>c. sid c = cid) (sockets st)"

definition modify :: "server \<Rightarrow> string \<Rightarrow> (socket \<Rightarrow> socket) \<Rightarrow> server" where
  "modify st cid f = st\<lparr>sockets := map (\<lambda>c. if sid c = cid then f c else c) (sockets st)\<rparr>"

definition deliver :: "server \<Rightarrow> string list \<Rightarrow> event \<Rightarrow> server" where
  "deliver st recipients ev = st\<lparr>outbox := outbox st @ map (\<lambda>r. (r, ev)) recipients\<rparr>"

text \<open>\<open>client.emit\<close>: to the socket itself.\<close>

definition client_emit :: "server \<Rightarrow> string \<Rightarrow> event \<Rightarrow> server" where
  "client_emit st cid ev = deliver st [cid] ev"

text \<open>\<open>client.broadcast.emit\<close>: to every connected socket except the client.\<close>

definition broadcast_emit :: "server \<Rightarrow> string \<Rightarrow> event \<Rightarrow> server" where
  "broadcast_emit st cid ev =
     deliver st (map sid (filter (\<lambda>c. connected c \<and> sid c \<noteq> cid) (sockets st))) ev"

text \<open>\<open>client.to(room).emit\<close>: to every connected socket in the room except the client.\<close>

definition client_to_emit :: "server \<Rightarrow> string \<Rightarrow> string \<Rightarrow> event \<Rightarrow> server" where
  "client_to_emit st cid room ev =
     deliver st
       (map sid (filter (\<lambda>c. connected c \<and> room \<in> set (rooms c) \<and> sid c \<noteq> cid) (sockets st)))
       ev"

text \<open>\<open>server.to(room).emit\<close>: to every connected socket in the room.\<close>

definition server_to_emit :: "server \<Rightarrow> string \<Rightarrow> event \<Rightarrow> server" where
  "server_to_emit st room ev =
     deliver st (map sid (filter (\<lambda>c. connected c \<and> room \<in> set (rooms c)) (sockets st))) ev"

definition client_join :: "server \<Rightarrow> string \<Rightarrow> string \<Rightarrow> server" where
  "client_join st cid room =
     modify st cid (\<lambda>c. if room \<in> set (rooms c) then c else c\<lparr>rooms := rooms c @ [room]\<rparr>)"

definition client_leave :: "server \<Rightarrow> string \<Rightarrow> string \<Rightarrow> server" where
  "client_leave st cid room =
     modify st cid (\<lambda>c. c\<lparr>rooms := filter (\<lambda>r. r \<noteq> room) (rooms c)\<rparr>)"

definition handleDisconnect :: "server \<Rightarrow> string \<Rightarrow> server" where
  "handleDisconnect st cid =
     (case Option.bind (lookup st cid) data_user of
        None \<Rightarrow> st
      | Some u \<Rightarrow>
          (let st1 = st\<lparr>presence := setOffline (presence st) (su_userId u) cid\<rparr>
           in broadcast_emit st1 cid (PresenceUpdate (su_userId u) ''offline'')))"

text \<open>
  \<open>client.disconnect()\<close>, and equally a close coming from the transport: a connected
  socket leaves its rooms and the registry of connected sockets, then the gateway's
  \<open>handleDisconnect\<close> hook runs; on a socket already closed nothing happens.
\<close>

definition client_disconnect :: "server \<Rightarrow> string \<Rightarrow> server" where
  "client_disconnect st cid =
     (case lookup st cid of
        None \<Rightarrow> st
      | Some c \<Rightarrow>
          if connected c
          then handleDisconnect (modify st cid (\<lambda>c. c\<lparr>rooms := [], connected := False\<rparr>)) cid
          else st)"

definition handleConnection :: "collab \<Rightarrow> server \<Rightarrow> string \<Rightarrow> server" where
  "handleConnection X st cid =
     (case Option.bind (lookup st cid) auth_token of
        None \<Rightarrow> client_disconnect st cid
      | Some token \<Rightarrow>
          if token = [] then client_disconnect st cid
          else
            (case jwt_verify X token of
               None \<Rightarrow> client_disconnect st cid
             | Some payload \<Rightarrow>
                 (let st1 = modify st cid
                       (\<lambda>c. c\<lparr>data_user := Some \<lparr>su_userId = p_sub payload,
                                                  su_displayName = p_displayName payload\<rparr>\<rparr>);
                      st2 = st1\<lparr>presence := setOnline (presence st1) (p_sub payload) cid\<rparr>
                  in client_emit st2 cid (PresenceUpdate (p_sub payload) ''online''))))"

text \<open>
  A new connection: the socket server registers the socket, which joins the room named
  by its own identifier, and the gateway's \<open>handleConnection\<close> hook runs.
\<close>

definition connection :: "collab \<Rightarrow> server \<Rightarrow> string \<Rightarrow> string option \<Rightarrow> server" where
  "connection X st cid token =
     handleConnection X
       (st\<lparr>sockets := sockets st @
            [\<lparr>sid = cid, auth_token = token, data_user = None, rooms = [cid],
              connected = True\<rparr>]\<rparr>)
       cid"

definition joinChannel :: "server \<Rightarrow> string \<Rightarrow> string \<Rightarrow> server" where
  "joinChannel st cid channelId =
     client_emit (client_join st cid channelId) cid (ChannelJoined channelId)"

definition leaveChannel :: "server \<Rightarrow> string \<Rightarrow> string \<Rightarrow> server" where
  "leaveChannel st cid channelId =
     client_emit (client_leave st cid channelId) cid (ChannelLeft channelId)"

text \<open>Reading \<open>user.userId\<close> of an absent \<open>data.user\<close> throws a \<open>TypeError\<close>.\<close>

definition typingStart :: "server \<Rightarrow> string \<Rightarrow> string \<Rightarrow> error + server" where
  "typingStart st cid channelId =
     (case Option.bind (lookup st cid) data_user of
        None \<Rightarrow> Inl TypeError
      | Some u \<Rightarrow>
          Inr (client_to_emit st cid channelId (TypingUpdate channelId (su_userId u) True)))"

definition typingStop :: "server \<Rightarrow> string \<Rightarrow> string \<Rightarrow> error + server" where
  "typingStop st cid channelId =
     (case Option.bind (lookup st cid) data_user of
        None \<Rightarrow> Inl TypeError
      | Some u \<Rightarrow>
          Inr (client_to_emit st cid channelId (TypingUpdate channelId (su_userId u) False)))"

definition sendMessage ::
    "collab \<Rightarrow> server \<Rightarrow> string \<Rightarrow> string \<Rightarrow> string \<Rightarrow> string list option \<Rightarrow> error + server \<times> message" where
  "sendMessage X st cid channelId content attachmentIds =
     (case Option.bind (lookup st cid) data_user of
        None \<Rightarrow> Inl TypeError
      | Some u \<Rightarrow>
          (let (s1, msg) = createMessage X (database st) channelId (su_userId u) content
                             attachmentIds;
               st1 = st\<lparr>database := s1\<rparr>
           in Inr (server_to_emit st1 channelId (MessageNew msg), msg)))"

section \<open>Sample data\<close>

text \<open>Concrete collaborators and initial states on which the results are evaluated.\<close>

definition sample_collab :: collab where
  "sample_collab =
     \<lparr>jwt_sign = (\<lambda>c. case c of
                       AccessClaims u e d \<Rightarrow> ''access-'' @ u
                     | RefreshClaims u \<Rightarrow> ''refresh-'' @ u),
      jwt_verify = (\<lambda>t. if t = ''access-alice''
                         then Some \<lparr>p_sub = ''alice'', p_displayName = ''Alice''\<rparr>
                         else if t = ''access-bob''
                         then Some \<lparr>p_sub = ''bob'', p_displayName = ''Bob''\<rparr>
                         else None),
      bcrypt_hash = (\<lambda>x c. ''digest-'' @ x),
      bcrypt_compare = (\<lambda>x h. h = ''digest-'' @ x),
      uuidv4 = (\<lambda>n. replicate (Suc n) (CHR ''i'')),
      gen_random_uuid = ''r'',
      js_Number = (\<lambda>l. if l = ''2'' then Integer 2 else NonInteger),
      timestamp_in = (\<lambda>b. if b = ''T30'' then Some 30 else None),
      tie_rank = (\<lambda>i. 0)\<rparr>"

definition empty_redis :: redis where
  "empty_redis = \<lparr>clock = 0, store = Map.empty\<rparr>"

definition empty_db :: db where
  "empty_db =
     \<lparr>db_now = 0, users = [], channels = [], channel_members = [], messages = [],
      message_attachments = [], refresh_tokens = []\<rparr>"

definition empty_server :: server where
  "empty_server = \<lparr>sockets = [], outbox = [], presence = empty_redis, database = empty_db\<rparr>"

text \<open>
  Four sockets: \<open>s1\<close> (alice) and \<open>s2\<close> (bob) are authenticated and in the room
  \<open>general\<close>, \<open>s3\<close> was rejected and is closed, \<open>s4\<close> has just connected with alice's
  token and has not been through \<open>handleConnection\<close> yet.
\<close>

definition sample_server :: server where
  "sample_server =
     \<lparr>sockets =
        [\<lparr>sid = ''s1'', auth_token = Some ''access-alice'',
          data_user = Some \<lparr>su_userId = ''alice'', su_displayName = ''Alice''\<rparr>,
          rooms = [''s1'', ''general''], connected = True\<rparr>,
         \<lparr>sid = ''s2'', auth_token = Some ''access-bob'',
          data_user = Some \<lparr>su_userId = ''bob'', su_displayName = ''Bob''\<rparr>,
          rooms = [''s2'', ''general''], connected = True\<rparr>,
         \<lparr>sid = ''s3'', auth_token = None, data_user = None, rooms = [],
          connected = False\<rparr>,
         \<lparr>sid = ''s4'', auth_token = Some ''access-alice'', data_user = None,
          rooms = [''s4''], connected = True\<rparr>],
      outbox = [],
      presence = empty_redis,
      database = empty_db\<rparr>"

text \<open>
  A store whose channel \<open>general\<close> already holds one message, and the store after three
  more messages were created in that channel ten milliseconds apart.
\<close>

definition sample_db :: db where
  "sample_db =
     empty_db
       \<lparr>db_now := 10,
        messages :=
          [\<lparr>m_id = ''m0'', m_channelId = ''general'', m_senderId = ''bob'',
            m_content = ''zero'', m_createdAt = 5\<rparr>,
           \<lparr>m_id = ''n0'', m_channelId = ''random'', m_senderId = ''bob'',
            m_content = ''elsewhere'', m_createdAt = 7\<rparr>]\<rparr>"

definition sample_history :: db where
  "sample_history =
     fst (createMessage (sample_collab\<lparr>uuidv4 := \<lambda>n. ''m3''\<rparr>)
            (db_advance 10
               (fst (createMessage (sample_collab\<lparr>uuidv4 := \<lambda>n. ''m2''\<rparr>)
                       (db_advance 10
                          (fst (createMessage (sample_collab\<lparr>uuidv4 := \<lambda>n. ''m1''\<rparr>)
                                  sample_db ''general'' ''alice'' ''one'' None)))
                       ''general'' ''bob'' ''two'' None)))
            ''general'' ''alice'' ''three'' None)"

text \<open>
  The store after three messages were created in a channel one after the other with no
  time passing on the store's clock.
\<close>

definition burst_history :: db where
  "burst_history =
     fst (createMessage (sample_collab\<lparr>uuidv4 := \<lambda>n. ''m3''\<rparr>)
            (fst (createMessage (sample_collab\<lparr>uuidv4 := \<lambda>n. ''m2''\<rparr>)
                    (fst (createMessage (sample_collab\<lparr>uuidv4 := \<lambda>n. ''m1''\<rparr>)
                            (db_advance 30 empty_db) ''general'' ''alice'' ''one'' None))
                    ''general'' ''bob'' ''two'' None))
            ''general'' ''alice'' ''three'' None)"

text \<open>A store holding a live refresh-token record whose user does not exist.\<close>

definition orphan_db :: db where
  "orphan_db =
     empty_db
       \<lparr>refresh_tokens :=
          [\<lparr>rt_id = ''r0'', rt_user_id = ''ghost'', rt_token_hash = ''digest-tok'',
            rt_expires_at = 1000\<rparr>]\<rparr>"

text \<open>The store after one registration on the empty store.\<close>

definition registered_db :: db where
  "registered_db =
     (case register sample_collab empty_db ''a@x.com'' ''correct horse'' ''Alice'' of
        Inl e \<Rightarrow> empty_db
      | Inr (s, res) \<Rightarrow> s)"

text \<open>
  Collaborators whose hasher reads the first 72 characters of its input only, as bcrypt
  does, and whose refresh tokens carry the user identifier after a fixed header; two
  user identifiers that agree on the part falling within those 72 characters; and the
  stores after the two users registered one after the other.
\<close>

definition ann_id :: string where
  "ann_id = ''3f2b8c1e-9a4d-4e6f-8b2a-1c5d7e9f0a01''"

definition ben_id :: string where
  "ben_id = ''3f2b8c1e-9a4d-4e6f-8b2a-1c5d7e9f0a02''"

definition bcrypt72_collab :: "string \<Rightarrow> collab" where
  "bcrypt72_collab i =
     sample_collab
       \<lparr>jwt_sign := (\<lambda>c. case c of
                        AccessClaims u e d \<Rightarrow> ''access-'' @ u
                      | RefreshClaims u \<Rightarrow>
                          ''eyJhbGciOiJIUzI1NiIsInR5cCI6IkpXVCJ9.sub='' @ u),
        bcrypt_hash := (\<lambda>x c. ''digest-'' @ take 72 x),
        bcrypt_compare := (\<lambda>x h. h = ''digest-'' @ take 72 x),
        uuidv4 := (\<lambda>n. i)\<rparr>"

definition one_user_db :: db where
  "one_user_db =
     (case register (bcrypt72_collab ann_id) empty_db ''ann@x.com'' ''password of ann'' ''Ann'' of
        Inl e \<Rightarrow> empty_db
      | Inr (s, res) \<Rightarrow> s)"

definition two_users_db :: db where
  "two_users_db =
     (case register (bcrypt72_collab ben_id) one_user_db ''ben@x.com'' ''password of ben'' ''Ben'' of
        Inl e \<Rightarrow> one_user_db
      | Inr (s, res) \<Rightarrow> s)"

section \<open>Properties of the presence store\<close>

lemma clock_hset: "clock (hset r k fvs) = clock r"
  by (simp add: hset_def Let_def)

lemma clock_expire: "clock (expire r k n) = clock r"
  by (simp add: expire_def split: option.splits)

lemma clock_setOnline: "clock (setOnline r u c) = clock r"
  by (simp add: setOnline_def clock_hset clock_expire)

lemma advance_advance: "advance d' (advance d r) = advance (d + d') r"
  by (simp add: advance_def add.assoc)

lemma advance_0: "advance 0 r = r"
  by (simp add: advance_def)

lemma live_advance:
  "live (advance d r) k =
     (case store r k of
        None \<Rightarrow> None
      | Some h \<Rightarrow>
          (case expire_at h of
             None \<Rightarrow> Some h
           | Some t \<Rightarrow> if clock r + d \<le> t then Some h else None))"
  by (simp add: live_def advance_def split: option.splits)

lemma rhash_updates:
  "h\<lparr>entries := e, expire_at := t\<rparr> = \<lparr>entries = e, expire_at = t\<rparr>"
  by (cases h) simp

lemma live_hset_same:
  "live (hset r k fvs) k =
     Some \<lparr>entries = (case live r k of None \<Rightarrow> Map.empty | Some h \<Rightarrow> entries h) ++ map_of (rev fvs),
           expire_at = (case live r k of None \<Rightarrow> None | Some h \<Rightarrow> expire_at h)\<rparr>"
proof (cases "live r k")
  case None
  then show ?thesis
    by (simp add: hset_def live_def)
next
  case (Some h)
  then have "live (hset r k fvs) k = Some (h\<lparr>entries := entries h ++ map_of (rev fvs)\<rparr>)"
    by (auto simp: hset_def live_def split: option.splits if_splits)
  moreover have "h\<lparr>entries := entries h ++ map_of (rev fvs)\<rparr> =
      \<lparr>entries = entries h ++ map_of (rev fvs), expire_at = expire_at h\<rparr>"
    by (cases h) simp
  ultimately show ?thesis
    using Some by simp
qed

lemma store_expire_same:
  "live r k = Some h \<Longrightarrow>
   store (expire r k n) k = Some \<lparr>entries = entries h, expire_at = Some (clock r + n * 1000)\<rparr>"
  by (cases h) (simp add: expire_def)

lemma store_setOnline:
  "store (setOnline r u c) (presence_key u) =
     Some \<lparr>entries = (case live r (presence_key u) of None \<Rightarrow> Map.empty | Some h \<Rightarrow> entries h)
                        (''status'' \<mapsto> ''online'', ''socketId'' \<mapsto> c),
           expire_at = Some (clock r + 60000)\<rparr>"
  unfolding setOnline_def
  by (subst store_expire_same [OF live_hset_same]) (simp add: clock_hset)

lemma store_setOffline:
  assumes "hget r (presence_key u) ''socketId'' = Some c"
  shows "store (setOffline r u c) (presence_key u) =
     Some \<lparr>entries = (case live r (presence_key u) of None \<Rightarrow> Map.empty | Some h \<Rightarrow> entries h)
                        (''status'' \<mapsto> ''offline''),
           expire_at = Some (clock r + 60000)\<rparr>"
proof -
  have "setOffline r u c =
      expire (hset r (presence_key u) [(''status'', ''offline'')]) (presence_key u) 60"
    using assms by (simp add: setOffline_def)
  then show ?thesis
    by (simp add: store_expire_same [OF live_hset_same] clock_hset)
qed

lemma clock_setOffline: "clock (setOffline r u c) = clock r"
  by (simp add: setOffline_def clock_hset clock_expire Let_def)

lemma setOffline_other:
  "hget r (presence_key u) ''socketId'' \<noteq> Some c \<Longrightarrow> setOffline r u c = r"
  by (simp add: setOffline_def)

lemma live_advance_setOnline:
  "live (advance d (setOnline r u c)) (presence_key u) =
     (if d \<le> 60000
      then Some \<lparr>entries = (case live r (presence_key u) of None \<Rightarrow> Map.empty | Some h \<Rightarrow> entries h)
                        (''status'' \<mapsto> ''online'', ''socketId'' \<mapsto> c),
                 expire_at = Some (clock r + 60000)\<rparr>
      else None)"
  by (simp add: live_advance store_setOnline clock_setOnline)

lemma live_advance_setOffline:
  assumes "hget r (presence_key u) ''socketId'' = Some c"
  shows "live (advance d (setOffline r u c)) (presence_key u) =
     (if d \<le> 60000
      then Some \<lparr>entries = (case live r (presence_key u) of None \<Rightarrow> Map.empty | Some h \<Rightarrow> entries h)
                        (''status'' \<mapsto> ''offline''),
                 expire_at = Some (clock r + 60000)\<rparr>
      else None)"
  by (simp add: live_advance store_setOffline [OF assms] clock_setOffline)

lemma socketId_advance_setOnline:
  "hget (advance d (setOnline r u c)) (presence_key u) ''socketId'' =
     (if d \<le> 60000 then Some c else None)"
  by (simp add: hget_def live_advance_setOnline)

lemma getPresence_advance_setOnline:
  "getPresence (advance d (setOnline r u c)) u = (if d \<le> 60000 then ''online'' else ''offline'')"
  by (simp add: getPresence_def hget_def live_advance_setOnline)

lemma getPresence_advance_setOffline:
  "hget r (presence_key u) ''socketId'' = Some c \<Longrightarrow>
   getPresence (advance d (setOffline r u c)) u = ''offline''"
  by (simp add: getPresence_def hget_def live_advance_setOffline)

text \<open>
  C1.  Stale-disconnect guard.  Whatever the store held before and however much time
  passes between the calls, after \<open>setOnline(u, A)\<close>, \<open>setOnline(u, B)\<close>,
  \<open>setOffline(u, A)\<close> with \<open>A \<noteq> B\<close> the presence of \<open>u\<close> reads "online" for as long as
  the record written by \<open>setOnline(u, B)\<close> has not expired.  In general
  \<open>setOffline(u, A)\<close> leaves the store as it is when the stored owning connection id is
  not \<open>A\<close>, and in particular when no record is visible.
\<close>

theorem setOffline_stale_guard:
  "(A \<noteq> B \<and> d2 + d3 \<le> 60000 \<longrightarrow>
      getPresence
        (advance d3 (setOffline (advance d2 (setOnline (advance d1 (setOnline r u A)) u B)) u A))
        u = ''online'') \<and>
   (hget r (presence_key u) ''socketId'' \<noteq> Some A \<longrightarrow> setOffline r u A = r) \<and>
   (live r (presence_key u) = None \<longrightarrow> setOffline r u A = r)"
proof (intro conjI impI)
  assume h: "A \<noteq> B \<and> d2 + d3 \<le> 60000"
  let ?r2 = "advance d2 (setOnline (advance d1 (setOnline r u A)) u B)"
  have "hget ?r2 (presence_key u) ''socketId'' \<noteq> Some A"
    using h by (auto simp: socketId_advance_setOnline)
  then have "setOffline ?r2 u A = ?r2"
    by (rule setOffline_other)
  then show "getPresence (advance d3 (setOffline ?r2 u A)) u = ''online''"
    using h by (simp add: advance_advance getPresence_advance_setOnline)
next
  assume "hget r (presence_key u) ''socketId'' \<noteq> Some A"
  then show "setOffline r u A = r"
    by (rule setOffline_other)
next
  assume "live r (presence_key u) = None"
  then have "hget r (presence_key u) ''socketId'' \<noteq> Some A"
    by (simp add: hget_def)
  then show "setOffline r u A = r"
    by (rule setOffline_other)
qed

theorem setOffline_stale_guard_witness:
  "''A'' \<noteq> ''B'' \<and> (20000::nat) + 30000 \<le> 60000 \<and>
   getPresence
     (advance 30000 (setOffline (advance 20000
        (setOnline (advance 5000 (setOnline \<lparr>clock = 0, store = Map.empty\<rparr> ''u'' ''A''))
           ''u'' ''B'')) ''u'' ''A''))
     ''u'' = ''online'' \<and>
   live \<lparr>clock = 0, store = Map.empty\<rparr> (presence_key ''u'') = None \<and>
   hget \<lparr>clock = 0, store = Map.empty\<rparr> (presence_key ''u'') ''socketId'' \<noteq> Some ''A'' \<and>
   setOffline \<lparr>clock = 0, store = Map.empty\<rparr> ''u'' ''A'' = \<lparr>clock = 0, store = Map.empty\<rparr>"
  using setOffline_stale_guard [of "''A''" "''B''" 20000 30000 5000
          "\<lparr>clock = 0, store = Map.empty\<rparr>" "''u''"]
  by (simp add: live_def hget_def)

section \<open>Properties of the gateway\<close>

lemma find_map_if:
  assumes "\<And>c. sid (f c) = sid c"
  shows "find (\<lambda>c. sid c = cid') (map (\<lambda>c. if sid c = cid then f c else c) cs) =
         (if cid' = cid then map_option f (find (\<lambda>c. sid c = cid) cs)
          else find (\<lambda>c. sid c = cid') cs)"
  using assms by (induction cs) auto

lemma lookup_modify:
  assumes "\<And>c. sid (f c) = sid c"
  shows "lookup (modify st cid f) cid' =
         (if cid' = cid then map_option f (lookup st cid) else lookup st cid')"
  using find_map_if [of f cid' cid "sockets st", OF assms]
  by (simp add: lookup_def modify_def)

lemma modify_fields:
  "presence (modify st cid f) = presence st"
  "outbox (modify st cid f) = outbox st"
  "database (modify st cid f) = database st"
  by (simp_all add: modify_def)

lemma deliver_fields:
  "presence (deliver st rs ev) = presence st"
  "outbox (deliver st rs ev) = outbox st @ map (\<lambda>r. (r, ev)) rs"
  "database (deliver st rs ev) = database st"
  "sockets (deliver st rs ev) = sockets st"
  by (simp_all add: deliver_def)

lemma handleDisconnect_anonymous:
  "Option.bind (lookup st cid) data_user = None \<Longrightarrow> handleDisconnect st cid = st"
  by (simp add: handleDisconnect_def)

lemma client_disconnect_anonymous:
  assumes "lookup st cid = Some c" and "data_user c = None"
  shows "client_disconnect st cid =
         (if connected c then modify st cid (\<lambda>c. c\<lparr>rooms := [], connected := False\<rparr>) else st)"
proof (cases "connected c")
  case True
  let ?st = "modify st cid (\<lambda>c. c\<lparr>rooms := [], connected := False\<rparr>)"
  have "lookup ?st cid = Some (c\<lparr>rooms := [], connected := False\<rparr>)"
    using assms(1) by (simp add: lookup_modify)
  then have "Option.bind (lookup ?st cid) data_user = None"
    using assms(2) by simp
  then have "handleDisconnect ?st cid = ?st"
    by (rule handleDisconnect_anonymous)
  then show ?thesis
    using True assms(1) by (simp add: client_disconnect_def)
next
  case False
  then show ?thesis
    using assms(1) by (simp add: client_disconnect_def)
qed

lemma client_disconnect_anonymous_effects:
  assumes "lookup st cid = Some c" and "data_user c = None"
  shows "presence (client_disconnect st cid) = presence st"
    and "outbox (client_disconnect st cid) = outbox st"
    and "database (client_disconnect st cid) = database st"
    and "Option.bind (lookup (client_disconnect st cid) cid) data_user = None"
    and "map_option connected (lookup (client_disconnect st cid) cid) = Some False"
  using assms
  by (simp_all add: client_disconnect_anonymous modify_fields lookup_modify)

lemma handleConnection_rejected:
  assumes "lookup st cid = Some c"
    and "auth_token c = None \<or> auth_token c = Some [] \<or>
         (\<exists>t. auth_token c = Some t \<and> jwt_verify X t = None)"
  shows "handleConnection X st cid = client_disconnect st cid"
  using assms by (auto simp: handleConnection_def)

text \<open>
  C3.  Rejection by the connection gatekeeper leaves no state behind.  For a socket that
  has just connected (no identity attached yet) whose handshake carries no token, an
  empty token, or a token the verifier refuses, \<open>handleConnection\<close> closes the
  connection and does nothing else: the presence store, the events handed out and the
  persistence store are what they were, and the socket has no identity.
\<close>

theorem handleConnection_rejection_state_free:
  assumes "lookup st cid = Some c"
    and "data_user c = None"
    and "auth_token c = None \<or> auth_token c = Some [] \<or>
         (\<exists>t. auth_token c = Some t \<and> jwt_verify X t = None)"
  shows "presence (handleConnection X st cid) = presence st \<and>
         outbox (handleConnection X st cid) = outbox st \<and>
         database (handleConnection X st cid) = database st \<and>
         Option.bind (lookup (handleConnection X st cid) cid) data_user = None \<and>
         map_option connected (lookup (handleConnection X st cid) cid) = Some False"
  using client_disconnect_anonymous_effects [OF assms(1,2)]
    handleConnection_rejected [OF assms(1,3)]
  by simp

theorem handleConnection_rejection_state_free_witness:
  "lookup (empty_server\<lparr>sockets :=
        [\<lparr>sid = ''s1'', auth_token = Some ''forged'', data_user = None, rooms = [''s1''],
          connected = True\<rparr>]\<rparr>) ''s1'' =
     Some \<lparr>sid = ''s1'', auth_token = Some ''forged'', data_user = None, rooms = [''s1''],
           connected = True\<rparr> \<and>
   jwt_verify sample_collab ''forged'' = None \<and>
   handleConnection sample_collab
     (empty_server\<lparr>sockets :=
        [\<lparr>sid = ''s1'', auth_token = Some ''forged'', data_user = None, rooms = [''s1''],
          connected = True\<rparr>]\<rparr>) ''s1'' =
     empty_server\<lparr>sockets :=
        [\<lparr>sid = ''s1'', auth_token = Some ''forged'', data_user = None, rooms = [],
          connected = False\<rparr>]\<rparr> \<and>
   presence (handleConnection sample_collab
     (empty_server\<lparr>sockets :=
        [\<lparr>sid = ''s1'', auth_token = Some ''forged'', data_user = None, rooms = [''s1''],
          connected = True\<rparr>]\<rparr>) ''s1'') = empty_redis \<and>
   outbox (handleConnection sample_collab
     (empty_server\<lparr>sockets :=
        [\<lparr>sid = ''s1'', auth_token = Some ''forged'', data_user = None, rooms = [''s1''],
          connected = True\<rparr>]\<rparr>) ''s1'') = []"
  using handleConnection_rejection_state_free
      [of "empty_server\<lparr>sockets :=
              [\<lparr>sid = ''s1'', auth_token = Some ''forged'', data_user = None, rooms = [''s1''],
                connected = True\<rparr>]\<rparr>"
          "''s1''"
          "\<lparr>sid = ''s1'', auth_token = Some ''forged'', data_user = None, rooms = [''s1''],
            connected = True\<rparr>"
          sample_collab]
  by (simp add: lookup_def sample_collab_def empty_server_def handleConnection_def
        client_disconnect_def handleDisconnect_def modify_def)

lemma handleConnection_accepted:
  assumes "lookup st cid = Some c" and "auth_token c = Some t" and "t \<noteq> []"
    and "jwt_verify X t = Some p"
  shows "handleConnection X st cid =
         client_emit
           ((modify st cid (\<lambda>c. c\<lparr>data_user := Some \<lparr>su_userId = p_sub p,
                                          su_displayName = p_displayName p\<rparr>\<rparr>))
              \<lparr>presence := setOnline (presence st) (p_sub p) cid\<rparr>)
           cid (PresenceUpdate (p_sub p) ''online'')"
  using assms by (simp add: handleConnection_def Let_def modify_fields)

lemma handleConnection_accepted_effects:
  assumes "lookup st cid = Some c" and "auth_token c = Some t" and "t \<noteq> []"
    and "jwt_verify X t = Some p"
  shows "presence (handleConnection X st cid) = setOnline (presence st) (p_sub p) cid"
    and "outbox (handleConnection X st cid) = outbox st @ [(cid, PresenceUpdate (p_sub p) ''online'')]"
    and "database (handleConnection X st cid) = database st"
    and "Option.bind (lookup (handleConnection X st cid) cid) data_user =
           Some \<lparr>su_userId = p_sub p, su_displayName = p_displayName p\<rparr>"
proof -
  let ?m = "modify st cid (\<lambda>c. c\<lparr>data_user := Some \<lparr>su_userId = p_sub p,
                                          su_displayName = p_displayName p\<rparr>\<rparr>)"
  note eq = handleConnection_accepted [OF assms]
  show "presence (handleConnection X st cid) = setOnline (presence st) (p_sub p) cid"
    by (simp add: eq client_emit_def deliver_fields)
  show "outbox (handleConnection X st cid) = outbox st @ [(cid, PresenceUpdate (p_sub p) ''online'')]"
    by (simp add: eq client_emit_def deliver_fields modify_fields)
  show "database (handleConnection X st cid) = database st"
    by (simp add: eq client_emit_def deliver_fields modify_fields)
  have "lookup ?m cid = Some (c\<lparr>data_user := Some \<lparr>su_userId = p_sub p,
                                          su_displayName = p_displayName p\<rparr>\<rparr>)"
    using assms(1) by (simp add: lookup_modify)
  then show "Option.bind (lookup (handleConnection X st cid) cid) data_user =
           Some \<lparr>su_userId = p_sub p, su_displayName = p_displayName p\<rparr>"
    by (simp add: eq client_emit_def deliver_def lookup_def)
qed

lemma getPresence_setOnline: "getPresence (setOnline r u c) u = ''online''"
  using getPresence_advance_setOnline [of 0 r u c] by (simp add: advance_0)

lemma socketId_setOnline: "hget (setOnline r u c) (presence_key u) ''socketId'' = Some c"
  using socketId_advance_setOnline [of 0 r u c] by (simp add: advance_0)

lemma handleDisconnect_identified:
  assumes "Option.bind (lookup st cid) data_user = Some u"
  shows "presence (handleDisconnect st cid) = setOffline (presence st) (su_userId u) cid"
    and "outbox (handleDisconnect st cid) =
           outbox st @ map (\<lambda>r. (r, PresenceUpdate (su_userId u) ''offline''))
             (map sid (filter (\<lambda>c. connected c \<and> sid c \<noteq> cid) (sockets st)))"
    and "database (handleDisconnect st cid) = database st"
    and "sockets (handleDisconnect st cid) = sockets st"
  using assms
  by (simp_all add: handleDisconnect_def Let_def broadcast_emit_def deliver_fields)

lemma emitted_append: "outbox st' = outbox st @ new \<Longrightarrow> emitted st st' = new"
  by (simp add: emitted_def)

lemma recipients_modify:
  assumes "\<And>c. sid (f c) = sid c"
  shows "map sid (filter (\<lambda>c. connected c \<and> sid c \<noteq> cid)
                  (map (\<lambda>c. if sid c = cid then f c else c) cs)) =
         map sid (filter (\<lambda>c. connected c \<and> sid c \<noteq> cid) cs)"
  using assms by (induction cs) simp_all

lemma client_disconnect_identified:
  assumes "lookup st cid = Some c" and "connected c" and "data_user c = Some u"
  shows "presence (client_disconnect st cid) = setOffline (presence st) (su_userId u) cid"
    and "outbox (client_disconnect st cid) =
           outbox st @ map (\<lambda>r. (r, PresenceUpdate (su_userId u) ''offline''))
             (map sid (filter (\<lambda>c. connected c \<and> sid c \<noteq> cid) (sockets st)))"
    and "map_option connected (lookup (client_disconnect st cid) cid) = Some False"
proof -
  let ?m = "modify st cid (\<lambda>c. c\<lparr>rooms := [], connected := False\<rparr>)"
  have run: "client_disconnect st cid = handleDisconnect ?m cid"
    using assms(1,2) by (simp add: client_disconnect_def)
  have lk: "lookup ?m cid = Some (c\<lparr>rooms := [], connected := False\<rparr>)"
    using assms(1) by (simp add: lookup_modify)
  then have u: "Option.bind (lookup ?m cid) data_user = Some u"
    using assms(3) by simp
  note fx = handleDisconnect_identified [OF u]
  have rec: "map sid (filter (\<lambda>c. connected c \<and> sid c \<noteq> cid) (sockets ?m)) =
      map sid (filter (\<lambda>c. connected c \<and> sid c \<noteq> cid) (sockets st))"
    using recipients_modify [of "\<lambda>c. c\<lparr>rooms := [], connected := False\<rparr>" cid "sockets st"]
    by (simp add: modify_def)
  show "presence (client_disconnect st cid) = setOffline (presence st) (su_userId u) cid"
    by (simp add: run fx(1) modify_fields)
  show "outbox (client_disconnect st cid) =
           outbox st @ map (\<lambda>r. (r, PresenceUpdate (su_userId u) ''offline''))
             (map sid (filter (\<lambda>c. connected c \<and> sid c \<noteq> cid) (sockets st)))"
    by (simp only: run fx(2) rec modify_fields)
  show "map_option connected (lookup (client_disconnect st cid) cid) = Some False"
    using lk by (simp add: run fx(4) lookup_def)
qed

lemma handleConnection_accepted_socket:
  assumes "lookup st cid = Some c" and "auth_token c = Some t" and "t \<noteq> []"
    and "jwt_verify X t = Some p"
  shows "lookup (handleConnection X st cid) cid =
           Some (c\<lparr>data_user := Some \<lparr>su_userId = p_sub p,
                                        su_displayName = p_displayName p\<rparr>\<rparr>)"
proof -
  let ?m = "modify st cid (\<lambda>c. c\<lparr>data_user := Some \<lparr>su_userId = p_sub p,
                                          su_displayName = p_displayName p\<rparr>\<rparr>)"
  have "lookup ?m cid = Some (c\<lparr>data_user := Some \<lparr>su_userId = p_sub p,
                                          su_displayName = p_displayName p\<rparr>\<rparr>)"
    using assms(1) by (simp add: lookup_modify)
  then show ?thesis
    by (simp add: handleConnection_accepted [OF assms] client_emit_def deliver_def lookup_def)
qed

lemma getPresence_setOffline_setOnline:
  "getPresence (setOffline (setOnline r u c) u c) u = ''offline''"
proof -
  have "hget (setOnline r u c) (presence_key u) ''socketId'' = Some c"
    by (rule socketId_setOnline)
  then have "getPresence (advance 0 (setOffline (setOnline r u c) u c)) u = ''offline''"
    by (rule getPresence_advance_setOffline)
  then show ?thesis
    by (simp add: advance_0)
qed

lemma disconnect_recipients:
  "(r, e) \<in> set (map (\<lambda>r. (r, ev))
                    (map sid (filter (\<lambda>c. connected c \<and> sid c \<noteq> cid) (sockets st)))) \<longleftrightarrow>
   e = ev \<and> r \<noteq> cid \<and> is_connected st r"
  by (auto simp: is_connected_def)

text \<open>
  C4.  Presence events over the life of a connection.  When the handshake token
  verifies, \<open>handleConnection\<close> attaches the token's subject to the socket as its
  identity, registers that user online under this socket's identifier and hands out
  exactly one event, \<open>presence:update\<close> "online", addressed to the connecting socket.
  When the connection then closes, \<open>setOffline\<close> is called with that user and this socket
  identifier, the presence reads "offline", and \<open>presence:update\<close> "offline" for that
  user goes to the connected sockets other than the closing one, and to nobody else.
  In general \<open>handleDisconnect\<close> acts so on whatever identity the socket carries, and
  does nothing for a socket without identity.
\<close>

theorem presence_event_lifecycle:
  "(lookup st cid = Some c \<and> auth_token c = Some t \<and> t \<noteq> [] \<and> jwt_verify X t = Some p \<longrightarrow>
      presence (handleConnection X st cid) = setOnline (presence st) (p_sub p) cid \<and>
      hget (presence (handleConnection X st cid)) (presence_key (p_sub p)) ''socketId'' = Some cid \<and>
      getPresence (presence (handleConnection X st cid)) (p_sub p) = ''online'' \<and>
      outbox (handleConnection X st cid) =
        outbox st @ [(cid, PresenceUpdate (p_sub p) ''online'')] \<and>
      Option.bind (lookup (handleConnection X st cid) cid) data_user =
        Some \<lparr>su_userId = p_sub p, su_displayName = p_displayName p\<rparr> \<and>
      (connected c \<longrightarrow>
         presence (client_disconnect (handleConnection X st cid) cid) =
           setOffline (presence (handleConnection X st cid)) (p_sub p) cid \<and>
         getPresence (presence (client_disconnect (handleConnection X st cid) cid)) (p_sub p) =
           ''offline'' \<and>
         outbox (client_disconnect (handleConnection X st cid) cid) =
           outbox (handleConnection X st cid) @
           emitted (handleConnection X st cid)
             (client_disconnect (handleConnection X st cid) cid) \<and>
         (\<forall>r e. (r, e) \<in> set (emitted (handleConnection X st cid)
                                   (client_disconnect (handleConnection X st cid) cid)) \<longleftrightarrow>
                e = PresenceUpdate (p_sub p) ''offline'' \<and> r \<noteq> cid \<and>
                is_connected (handleConnection X st cid) r))) \<and>
   (Option.bind (lookup st cid) data_user = Some u \<longrightarrow>
      presence (handleDisconnect st cid) = setOffline (presence st) (su_userId u) cid \<and>
      outbox (handleDisconnect st cid) = outbox st @ emitted st (handleDisconnect st cid) \<and>
      (\<forall>r e. (r, e) \<in> set (emitted st (handleDisconnect st cid)) \<longleftrightarrow>
             e = PresenceUpdate (su_userId u) ''offline'' \<and> r \<noteq> cid \<and> is_connected st r)) \<and>
   (Option.bind (lookup st cid) data_user = None \<longrightarrow> handleDisconnect st cid = st)"
proof (intro conjI impI)
  assume h: "lookup st cid = Some c \<and> auth_token c = Some t \<and> t \<noteq> [] \<and> jwt_verify X t = Some p"
  then have a: "lookup st cid = Some c" "auth_token c = Some t" "t \<noteq> []" "jwt_verify X t = Some p"
    by simp_all
  note fx = handleConnection_accepted_effects [OF a]
  show "presence (handleConnection X st cid) = setOnline (presence st) (p_sub p) cid"
    by (rule fx(1))
  show "hget (presence (handleConnection X st cid)) (presence_key (p_sub p)) ''socketId'' = Some cid"
    by (simp add: fx(1) socketId_setOnline)
  show "getPresence (presence (handleConnection X st cid)) (p_sub p) = ''online''"
    by (simp add: fx(1) getPresence_setOnline)
  show "outbox (handleConnection X st cid) = outbox st @ [(cid, PresenceUpdate (p_sub p) ''online'')]"
    by (rule fx(2))
  show "Option.bind (lookup (handleConnection X st cid) cid) data_user =
        Some \<lparr>su_userId = p_sub p, su_displayName = p_displayName p\<rparr>"
    by (rule fx(4))
next
  assume h: "lookup st cid = Some c \<and> auth_token c = Some t \<and> t \<noteq> [] \<and> jwt_verify X t = Some p"
    and con: "connected c"
  then have a: "lookup st cid = Some c" "auth_token c = Some t" "t \<noteq> []" "jwt_verify X t = Some p"
    by simp_all
  let ?hc = "handleConnection X st cid"
  let ?idn = "\<lparr>su_userId = p_sub p, su_displayName = p_displayName p\<rparr>"
  let ?c = "c\<lparr>data_user := Some ?idn\<rparr>"
  have lk: "lookup ?hc cid = Some ?c"
    by (rule handleConnection_accepted_socket [OF a])
  have cc: "connected ?c" and du: "data_user ?c = Some ?idn"
    using con by simp_all
  note dx = client_disconnect_identified [OF lk cc du]
  have pr: "presence ?hc = setOnline (presence st) (p_sub p) cid"
    by (rule handleConnection_accepted_effects(1) [OF a])
  show "presence (client_disconnect ?hc cid) = setOffline (presence ?hc) (p_sub p) cid"
    using dx(1) by simp
  have "getPresence (advance 0 (setOffline (setOnline (presence st) (p_sub p) cid) (p_sub p) cid))
          (p_sub p) = ''offline''"
    by (rule getPresence_advance_setOffline [OF socketId_setOnline])
  then show "getPresence (presence (client_disconnect ?hc cid)) (p_sub p) = ''offline''"
    using dx(1) by (simp add: pr advance_0)
  have em: "emitted ?hc (client_disconnect ?hc cid) =
      map (\<lambda>r. (r, PresenceUpdate (p_sub p) ''offline''))
        (map sid (filter (\<lambda>c. connected c \<and> sid c \<noteq> cid) (sockets ?hc)))"
    using emitted_append [OF dx(2)] by simp
  show "outbox (client_disconnect ?hc cid) = outbox ?hc @ emitted ?hc (client_disconnect ?hc cid)"
    using dx(2) by (simp add: em)
  show "\<forall>r e. (r, e) \<in> set (emitted ?hc (client_disconnect ?hc cid)) \<longleftrightarrow>
                e = PresenceUpdate (p_sub p) ''offline'' \<and> r \<noteq> cid \<and> is_connected ?hc r"
    by (simp only: em disconnect_recipients) simp
next
  assume u: "Option.bind (lookup st cid) data_user = Some u"
  note fx = handleDisconnect_identified [OF u]
  show "presence (handleDisconnect st cid) = setOffline (presence st) (su_userId u) cid"
    by (rule fx(1))
  have em: "emitted st (handleDisconnect st cid) =
      map (\<lambda>r. (r, PresenceUpdate (su_userId u) ''offline''))
        (map sid (filter (\<lambda>c. connected c \<and> sid c \<noteq> cid) (sockets st)))"
    by (rule emitted_append [OF fx(2)])
  show "outbox (handleDisconnect st cid) = outbox st @ emitted st (handleDisconnect st cid)"
    by (simp add: em fx(2))
  show "\<forall>r e. (r, e) \<in> set (emitted st (handleDisconnect st cid)) \<longleftrightarrow>
             e = PresenceUpdate (su_userId u) ''offline'' \<and> r \<noteq> cid \<and> is_connected st r"
    unfolding em by (auto simp: is_connected_def)
next
  assume "Option.bind (lookup st cid) data_user = None"
  then show "handleDisconnect st cid = st"
    by (rule handleDisconnect_anonymous)
qed

theorem presence_event_lifecycle_witness:
  "(lookup sample_server ''s4'' =
      Some \<lparr>sid = ''s4'', auth_token = Some ''access-alice'', data_user = None,
            rooms = [''s4''], connected = True\<rparr> \<and>
    jwt_verify sample_collab ''access-alice'' =
      Some \<lparr>p_sub = ''alice'', p_displayName = ''Alice''\<rparr>) \<and>
   getPresence (presence (handleConnection sample_collab sample_server ''s4'')) ''alice'' = ''online'' \<and>
   outbox (handleConnection sample_collab sample_server ''s4'') =
     [(''s4'', PresenceUpdate ''alice'' ''online'')] \<and>
   Option.bind (lookup (handleConnection sample_collab sample_server ''s4'') ''s4'') data_user =
     Some \<lparr>su_userId = ''alice'', su_displayName = ''Alice''\<rparr> \<and>
   getPresence
     (presence (client_disconnect (handleConnection sample_collab sample_server ''s4'') ''s4''))
     ''alice'' = ''offline'' \<and>
   (''s1'', PresenceUpdate ''alice'' ''offline'') \<in>
     set (emitted (handleConnection sample_collab sample_server ''s4'')
            (client_disconnect (handleConnection sample_collab sample_server ''s4'') ''s4'')) \<and>
   (''s2'', PresenceUpdate ''alice'' ''offline'') \<in>
     set (emitted (handleConnection sample_collab sample_server ''s4'')
            (client_disconnect (handleConnection sample_collab sample_server ''s4'') ''s4'')) \<and>
   (''s4'', PresenceUpdate ''alice'' ''offline'') \<notin>
     set (emitted (handleConnection sample_collab sample_server ''s4'')
            (client_disconnect (handleConnection sample_collab sample_server ''s4'') ''s4'')) \<and>
   (''s3'', PresenceUpdate ''alice'' ''offline'') \<notin>
     set (emitted (handleConnection sample_collab sample_server ''s4'')
            (client_disconnect (handleConnection sample_collab sample_server ''s4'') ''s4'')) \<and>
   Option.bind (lookup sample_server ''s1'') data_user =
     Some \<lparr>su_userId = ''alice'', su_displayName = ''Alice''\<rparr> \<and>
   (''s2'', PresenceUpdate ''alice'' ''offline'') \<in> set (emitted sample_server (handleDisconnect sample_server ''s1'')) \<and>
   (''s1'', PresenceUpdate ''alice'' ''offline'') \<notin> set (emitted sample_server (handleDisconnect sample_server ''s1'')) \<and>
   Option.bind (lookup sample_server ''s3'') data_user = None \<and>
   handleDisconnect sample_server ''s3'' = sample_server"
proof -
  let ?c4 = "\<lparr>sid = ''s4'', auth_token = Some ''access-alice'', data_user = None,
            rooms = [''s4''], connected = True\<rparr>"
  let ?alice = "\<lparr>su_userId = ''alice'', su_displayName = ''Alice''\<rparr>"
  let ?hc = "handleConnection sample_collab sample_server ''s4''"
  have l4: "lookup sample_server ''s4'' = Some ?c4"
    by (simp add: lookup_def sample_server_def)
  have v: "jwt_verify sample_collab ''access-alice'' =
      Some \<lparr>p_sub = ''alice'', p_displayName = ''Alice''\<rparr>"
    by (simp add: sample_collab_def)
  have ob: "outbox sample_server = []"
    by (simp add: sample_server_def)
  have l1: "Option.bind (lookup sample_server ''s1'') data_user = Some ?alice"
    by (simp add: lookup_def sample_server_def)
  have l3: "Option.bind (lookup sample_server ''s3'') data_user = None"
    by (simp add: lookup_def sample_server_def)
  have conn: "is_connected sample_server ''s2''" "is_connected sample_server ''s4''"
    "\<not> is_connected sample_server ''s3''"
    by (simp_all add: is_connected_def sample_server_def)
  have sk: "sockets ?hc =
      map (\<lambda>c. if sid c = ''s4'' then c\<lparr>data_user := Some ?alice\<rparr> else c) (sockets sample_server)"
    using handleConnection_accepted [OF l4 _ _ v]
    by (simp add: client_emit_def deliver_def modify_def)
  have conn': "is_connected ?hc ''s1''" "is_connected ?hc ''s2''" "\<not> is_connected ?hc ''s3''"
    by (simp_all add: is_connected_def sk) (simp_all add: sample_server_def)
  note inst = presence_event_lifecycle
      [of sample_server "''s4''" ?c4 "''access-alice''" sample_collab
          "\<lparr>p_sub = ''alice'', p_displayName = ''Alice''\<rparr>", THEN conjunct1]
  have a: "getPresence (presence ?hc) ''alice'' = ''online'' \<and>
      outbox ?hc = [(''s4'', PresenceUpdate ''alice'' ''online'')] \<and>
      Option.bind (lookup ?hc ''s4'') data_user = Some ?alice \<and>
      getPresence (presence (client_disconnect ?hc ''s4'')) ''alice'' = ''offline'' \<and>
      (\<forall>r e. (r, e) \<in> set (emitted ?hc (client_disconnect ?hc ''s4'')) \<longleftrightarrow>
                e = PresenceUpdate ''alice'' ''offline'' \<and> r \<noteq> ''s4'' \<and> is_connected ?hc r)"
    using inst l4 v ob
    by (simp add: getPresence_setOnline getPresence_setOffline_setOnline)
  have b: "\<forall>r e. (r, e) \<in> set (emitted sample_server (handleDisconnect sample_server ''s1'')) \<longleftrightarrow>
             e = PresenceUpdate ''alice'' ''offline'' \<and> r \<noteq> ''s1'' \<and> is_connected sample_server r"
    using presence_event_lifecycle [of sample_server "''s1''" _ _ _ _ ?alice] l1
    by simp
  have c: "handleDisconnect sample_server ''s3'' = sample_server"
    using presence_event_lifecycle [of sample_server "''s3''"] l3
    by simp
  show ?thesis
    using l4 v a l1 l3 c conn conn' by (simp add: b)
qed

subsection \<open>Room membership and broadcast\<close>

text \<open>
  Subscription is what \<open>channel:join\<close> and \<open>channel:leave\<close> control: after joining, a
  connected socket is subscribed to the room, after leaving it is not, and only the
  acknowledgement to the socket itself is handed out.
\<close>

lemma sockets_joinChannel:
  "sockets (joinChannel st cid channelId) =
     map (\<lambda>c. if sid c = cid
              then (if channelId \<in> set (rooms c) then c else c\<lparr>rooms := rooms c @ [channelId]\<rparr>)
              else c) (sockets st)"
  by (simp add: joinChannel_def client_emit_def deliver_def client_join_def modify_def)

lemma sockets_leaveChannel:
  "sockets (leaveChannel st cid channelId) =
     map (\<lambda>c. if sid c = cid then c\<lparr>rooms := filter (\<lambda>r. r \<noteq> channelId) (rooms c)\<rparr> else c)
       (sockets st)"
  by (simp add: leaveChannel_def client_emit_def deliver_def client_leave_def modify_def)

lemma subscribed_joinChannel:
  "subscribed (joinChannel st cid channelId) channelId cid \<longleftrightarrow> is_connected st cid"
proof -
  have "(\<exists>c \<in> set (map (\<lambda>c. if sid c = cid
              then (if channelId \<in> set (rooms c) then c else c\<lparr>rooms := rooms c @ [channelId]\<rparr>)
              else c) cs). sid c = cid \<and> connected c \<and> channelId \<in> set (rooms c)) \<longleftrightarrow>
        (\<exists>c \<in> set cs. sid c = cid \<and> connected c)" for cs
    by (induction cs) simp_all
  then show ?thesis
    by (simp add: subscribed_def is_connected_def sockets_joinChannel)
qed

lemma subscribed_leaveChannel:
  "\<not> subscribed (leaveChannel st cid channelId) channelId cid"
proof -
  have "\<not> (\<exists>c \<in> set (map (\<lambda>c. if sid c = cid
              then c\<lparr>rooms := filter (\<lambda>r. r \<noteq> channelId) (rooms c)\<rparr> else c) cs).
            sid c = cid \<and> connected c \<and> channelId \<in> set (rooms c))" for cs
    by (induction cs) simp_all
  then show ?thesis
    by (simp add: subscribed_def sockets_leaveChannel)
qed

lemma joinChannel_acknowledged:
  "outbox (joinChannel st cid channelId) = outbox st @ [(cid, ChannelJoined channelId)]"
  by (simp add: joinChannel_def client_emit_def deliver_def client_join_def modify_def)

lemma leaveChannel_acknowledged:
  "outbox (leaveChannel st cid channelId) = outbox st @ [(cid, ChannelLeft channelId)]"
  by (simp add: leaveChannel_def client_emit_def deliver_def client_leave_def modify_def)

lemma client_to_emit_outbox:
  "outbox (client_to_emit st cid room ev) =
     outbox st @ map (\<lambda>r. (r, ev))
       (map sid (filter (\<lambda>c. connected c \<and> room \<in> set (rooms c) \<and> sid c \<noteq> cid) (sockets st)))"
  by (simp add: client_to_emit_def deliver_fields)

lemma client_to_emit_recipients:
  "(r, e) \<in> set (emitted st (client_to_emit st cid room ev)) \<longleftrightarrow>
     e = ev \<and> r \<noteq> cid \<and> subscribed st room r"
  by (auto simp: emitted_append [OF client_to_emit_outbox] subscribed_def)

lemma server_to_emit_outbox:
  "outbox (server_to_emit st room ev) =
     outbox st @ map (\<lambda>r. (r, ev))
       (map sid (filter (\<lambda>c. connected c \<and> room \<in> set (rooms c)) (sockets st)))"
  by (simp add: server_to_emit_def deliver_fields)

lemma server_to_emit_recipients:
  "(r, e) \<in> set (emitted st (server_to_emit st' room ev)) \<longleftrightarrow>
     e = ev \<and> subscribed st' room r"
  if "outbox st' = outbox st"
  using that by (auto simp: emitted_def server_to_emit_outbox subscribed_def)

lemma sendMessage_identified:
  assumes "Option.bind (lookup st cid) data_user = Some u"
  shows "sendMessage X st cid channelId content attachmentIds =
     Inr (server_to_emit
            (st\<lparr>database := fst (createMessage X (database st) channelId (su_userId u) content attachmentIds)\<rparr>)
            channelId
            (MessageNew (snd (createMessage X (database st) channelId (su_userId u) content attachmentIds))),
          snd (createMessage X (database st) channelId (su_userId u) content attachmentIds))"
  using assms by (simp add: sendMessage_def Let_def split_beta)

lemma createMessage_row:
  "snd (createMessage X s channelId senderId content attachmentIds) =
     \<lparr>m_id = uuidv4 X 0, m_channelId = channelId, m_senderId = senderId,
      m_content = content, m_createdAt = db_now s\<rparr>"
  by (simp add: createMessage_def Let_def)

lemma createMessage_messages:
  "messages (fst (createMessage X s channelId senderId content attachmentIds)) =
     messages s @ [snd (createMessage X s channelId senderId content attachmentIds)]"
  by (simp add: createMessage_def Let_def split: option.splits)

lemma subscribed_database: "subscribed (st\<lparr>database := s\<rparr>) room r = subscribed st room r"
  by (simp add: subscribed_def)

text \<open>
  C2.  Broadcast targeting.  A socket counts as subscribed to a room when it is
  connected and has the room among its rooms.  For a sender with an identity,
  \<open>typingStart\<close> and \<open>typingStop\<close> hand the typing event to exactly the subscribed
  sockets other than the sender, and \<open>sendMessage\<close> persists the message and hands
  \<open>message:new\<close> to exactly the subscribed sockets, the sender's included; nothing else
  is handed out.
\<close>

theorem broadcast_targeting:
  assumes "Option.bind (lookup st cid) data_user = Some u"
  shows "(\<exists>st'. typingStart st cid channelId = Inr st' \<and>
            outbox st' = outbox st @ emitted st st' \<and>
            (\<forall>r e. (r, e) \<in> set (emitted st st') \<longleftrightarrow>
               e = TypingUpdate channelId (su_userId u) True \<and> r \<noteq> cid \<and>
               subscribed st channelId r)) \<and>
         (\<exists>st'. typingStop st cid channelId = Inr st' \<and>
            outbox st' = outbox st @ emitted st st' \<and>
            (\<forall>r e. (r, e) \<in> set (emitted st st') \<longleftrightarrow>
               e = TypingUpdate channelId (su_userId u) False \<and> r \<noteq> cid \<and>
               subscribed st channelId r)) \<and>
         (\<exists>st' msg. sendMessage X st cid channelId content attachmentIds = Inr (st', msg) \<and>
            msg = \<lparr>m_id = uuidv4 X 0, m_channelId = channelId, m_senderId = su_userId u,
                   m_content = content, m_createdAt = db_now (database st)\<rparr> \<and>
            messages (database st') = messages (database st) @ [msg] \<and>
            outbox st' = outbox st @ emitted st st' \<and>
            (\<forall>r e. (r, e) \<in> set (emitted st st') \<longleftrightarrow>
               e = MessageNew msg \<and> subscribed st channelId r))"
proof (intro conjI)
  let ?ev = "TypingUpdate channelId (su_userId u) True"
  have "typingStart st cid channelId = Inr (client_to_emit st cid channelId ?ev)"
    using assms by (simp add: typingStart_def)
  moreover have "outbox (client_to_emit st cid channelId ?ev) =
      outbox st @ emitted st (client_to_emit st cid channelId ?ev)"
    by (simp add: emitted_append [OF client_to_emit_outbox] client_to_emit_outbox)
  ultimately show "\<exists>st'. typingStart st cid channelId = Inr st' \<and>
            outbox st' = outbox st @ emitted st st' \<and>
            (\<forall>r e. (r, e) \<in> set (emitted st st') \<longleftrightarrow>
               e = ?ev \<and> r \<noteq> cid \<and> subscribed st channelId r)"
    using client_to_emit_recipients by blast
next
  let ?ev = "TypingUpdate channelId (su_userId u) False"
  have "typingStop st cid channelId = Inr (client_to_emit st cid channelId ?ev)"
    using assms by (simp add: typingStop_def)
  moreover have "outbox (client_to_emit st cid channelId ?ev) =
      outbox st @ emitted st (client_to_emit st cid channelId ?ev)"
    by (simp add: emitted_append [OF client_to_emit_outbox] client_to_emit_outbox)
  ultimately show "\<exists>st'. typingStop st cid channelId = Inr st' \<and>
            outbox st' = outbox st @ emitted st st' \<and>
            (\<forall>r e. (r, e) \<in> set (emitted st st') \<longleftrightarrow>
               e = ?ev \<and> r \<noteq> cid \<and> subscribed st channelId r)"
    using client_to_emit_recipients by blast
next
  let ?cm = "createMessage X (database st) channelId (su_userId u) content attachmentIds"
  let ?st1 = "st\<lparr>database := fst ?cm\<rparr>"
  let ?st' = "server_to_emit ?st1 channelId (MessageNew (snd ?cm))"
  have run: "sendMessage X st cid channelId content attachmentIds = Inr (?st', snd ?cm)"
    by (rule sendMessage_identified [OF assms])
  have ob: "outbox ?st1 = outbox st"
    by simp
  have out: "outbox ?st' = outbox st @ emitted st ?st'"
    by (simp add: emitted_def server_to_emit_outbox)
  have rec: "\<forall>r e. (r, e) \<in> set (emitted st ?st') \<longleftrightarrow>
               e = MessageNew (snd ?cm) \<and> subscribed st channelId r"
    using server_to_emit_recipients [OF ob] by (simp add: subscribed_database)
  have db: "messages (database ?st') = messages (database st) @ [snd ?cm]"
    by (simp add: server_to_emit_def deliver_fields createMessage_messages)
  show "\<exists>st' msg. sendMessage X st cid channelId content attachmentIds = Inr (st', msg) \<and>
            msg = \<lparr>m_id = uuidv4 X 0, m_channelId = channelId, m_senderId = su_userId u,
                   m_content = content, m_createdAt = db_now (database st)\<rparr> \<and>
            messages (database st') = messages (database st) @ [msg] \<and>
            outbox st' = outbox st @ emitted st st' \<and>
            (\<forall>r e. (r, e) \<in> set (emitted st st') \<longleftrightarrow>
               e = MessageNew msg \<and> subscribed st channelId r)"
    using run out rec db createMessage_row by blast
qed

theorem broadcast_targeting_witness:
  "Option.bind (lookup sample_server ''s1'') data_user =
     Some \<lparr>su_userId = ''alice'', su_displayName = ''Alice''\<rparr> \<and>
   emitted sample_server (projr (typingStart sample_server ''s1'' ''general'')) =
     [(''s2'', TypingUpdate ''general'' ''alice'' True)] \<and>
   emitted sample_server (projr (typingStop sample_server ''s1'' ''general'')) =
     [(''s2'', TypingUpdate ''general'' ''alice'' False)] \<and>
   snd (projr (sendMessage sample_collab sample_server ''s1'' ''general'' ''hello'' None)) =
     \<lparr>m_id = ''i'', m_channelId = ''general'', m_senderId = ''alice'', m_content = ''hello'',
      m_createdAt = 0\<rparr> \<and>
   emitted sample_server
       (fst (projr (sendMessage sample_collab sample_server ''s1'' ''general'' ''hello'' None))) =
     [(''s1'', MessageNew \<lparr>m_id = ''i'', m_channelId = ''general'', m_senderId = ''alice'',
                          m_content = ''hello'', m_createdAt = 0\<rparr>),
      (''s2'', MessageNew \<lparr>m_id = ''i'', m_channelId = ''general'', m_senderId = ''alice'',
                          m_content = ''hello'', m_createdAt = 0\<rparr>)] \<and>
   (\<forall>r e. (r, e) \<in> set (emitted sample_server
                  (fst (projr (sendMessage sample_collab sample_server ''s1'' ''general'' ''hello'' None)))) \<longleftrightarrow>
      e = MessageNew (snd (projr (sendMessage sample_collab sample_server ''s1'' ''general'' ''hello'' None))) \<and>
      subscribed sample_server ''general'' r)"
proof -
  let ?alice = "\<lparr>su_userId = ''alice'', su_displayName = ''Alice''\<rparr>"
  have l1: "Option.bind (lookup sample_server ''s1'') data_user = Some ?alice"
    by (simp add: lookup_def sample_server_def)
  have ty: "emitted sample_server (projr (typingStart sample_server ''s1'' ''general'')) =
     [(''s2'', TypingUpdate ''general'' ''alice'' True)]"
    by (simp add: typingStart_def lookup_def sample_server_def client_to_emit_def deliver_def
          emitted_def)
  have ts: "emitted sample_server (projr (typingStop sample_server ''s1'' ''general'')) =
     [(''s2'', TypingUpdate ''general'' ''alice'' False)]"
    by (simp add: typingStop_def lookup_def sample_server_def client_to_emit_def deliver_def
          emitted_def)
  have sm: "sendMessage sample_collab sample_server ''s1'' ''general'' ''hello'' None =
     Inr (sample_server
            \<lparr>database := empty_db\<lparr>messages :=
               [\<lparr>m_id = ''i'', m_channelId = ''general'', m_senderId = ''alice'',
                 m_content = ''hello'', m_createdAt = 0\<rparr>]\<rparr>,
             outbox :=
               [(''s1'', MessageNew \<lparr>m_id = ''i'', m_channelId = ''general'', m_senderId = ''alice'',
                          m_content = ''hello'', m_createdAt = 0\<rparr>),
                (''s2'', MessageNew \<lparr>m_id = ''i'', m_channelId = ''general'', m_senderId = ''alice'',
                          m_content = ''hello'', m_createdAt = 0\<rparr>)]\<rparr>,
          \<lparr>m_id = ''i'', m_channelId = ''general'', m_senderId = ''alice'',
           m_content = ''hello'', m_createdAt = 0\<rparr>)"
    by (simp add: sendMessage_def lookup_def sample_server_def server_to_emit_def deliver_def
          createMessage_def sample_collab_def empty_db_def Let_def)
  have ob: "outbox sample_server = []"
    by (simp add: sample_server_def)
  have gen: "\<forall>r e. (r, e) \<in> set (emitted sample_server
                  (fst (projr (sendMessage sample_collab sample_server ''s1'' ''general'' ''hello'' None)))) \<longleftrightarrow>
      e = MessageNew (snd (projr (sendMessage sample_collab sample_server ''s1'' ''general'' ''hello'' None))) \<and>
      subscribed sample_server ''general'' r"
    using broadcast_targeting [OF l1, of "''general''" sample_collab "''hello''" None]
    by auto
  show ?thesis
    using l1 ty ts gen by (simp add: sm emitted_def ob)
qed

lemma pttl_setOnline: "pttl (setOnline r u c) (presence_key u) = Some 60000"
  using live_advance_setOnline [of 0 r u c]
  by (simp add: pttl_def advance_0 clock_setOnline)

lemma pttl_setOffline:
  "hget r (presence_key u) ''socketId'' = Some c \<Longrightarrow>
   pttl (setOffline r u c) (presence_key u) = Some 60000"
  using live_advance_setOffline [of r u c 0]
  by (simp add: pttl_def advance_0 clock_setOffline)

text \<open>
  C7.  Presence expiry.  \<open>setOnline\<close>, and \<open>setOffline\<close> when it takes effect, leave the
  record with a time to live of 60 seconds, whatever the store held before; the record
  is visible for 60 seconds after the call and gone afterwards, without any further
  call.  While the record written by \<open>setOnline\<close> is visible the presence reads "online";
  once it is gone, or when no record was ever written, \<open>getPresence\<close> answers "offline".
  Right after \<open>handleConnection\<close> has accepted a token, the presence of the token's
  subject reads "online".
\<close>

theorem presence_expiry:
  "pttl (setOnline r u c) (presence_key u) = Some 60000 \<and>
   (live (advance d (setOnline r u c)) (presence_key u) \<noteq> None \<longleftrightarrow> d \<le> 60000) \<and>
   getPresence (advance d (setOnline r u c)) u = (if d \<le> 60000 then ''online'' else ''offline'') \<and>
   (hget r (presence_key u) ''socketId'' = Some c \<longrightarrow>
      pttl (setOffline r u c) (presence_key u) = Some 60000 \<and>
      (live (advance d (setOffline r u c)) (presence_key u) \<noteq> None \<longleftrightarrow> d \<le> 60000) \<and>
      getPresence (advance d (setOffline r u c)) u = ''offline'') \<and>
   (live r (presence_key u) = None \<longrightarrow> getPresence r u = ''offline'') \<and>
   (lookup st cid = Some k \<and> auth_token k = Some t \<and> t \<noteq> [] \<and> jwt_verify X t = Some p \<longrightarrow>
      getPresence (presence (handleConnection X st cid)) (p_sub p) = ''online'')"
proof (intro conjI impI)
  show "pttl (setOnline r u c) (presence_key u) = Some 60000"
    by (rule pttl_setOnline)
  show "live (advance d (setOnline r u c)) (presence_key u) \<noteq> None \<longleftrightarrow> d \<le> 60000"
    by (simp add: live_advance_setOnline)
  show "getPresence (advance d (setOnline r u c)) u = (if d \<le> 60000 then ''online'' else ''offline'')"
    by (rule getPresence_advance_setOnline)
next
  assume h: "hget r (presence_key u) ''socketId'' = Some c"
  show "pttl (setOffline r u c) (presence_key u) = Some 60000"
    by (rule pttl_setOffline [OF h])
  show "live (advance d (setOffline r u c)) (presence_key u) \<noteq> None \<longleftrightarrow> d \<le> 60000"
    by (simp add: live_advance_setOffline [OF h])
  show "getPresence (advance d (setOffline r u c)) u = ''offline''"
    by (rule getPresence_advance_setOffline [OF h])
next
  assume "live r (presence_key u) = None"
  then show "getPresence r u = ''offline''"
    by (simp add: getPresence_def hget_def)
next
  assume h: "lookup st cid = Some k \<and> auth_token k = Some t \<and> t \<noteq> [] \<and> jwt_verify X t = Some p"
  then have "presence (handleConnection X st cid) = setOnline (presence st) (p_sub p) cid"
    using handleConnection_accepted_effects(1) by blast
  then show "getPresence (presence (handleConnection X st cid)) (p_sub p) = ''online''"
    by (simp add: getPresence_setOnline)
qed

theorem presence_expiry_witness:
  "hget (setOnline empty_redis ''alice'' ''s1'') (presence_key ''alice'') ''socketId'' = Some ''s1'' \<and>
   getPresence (advance 60000 (setOnline empty_redis ''alice'' ''s1'')) ''alice'' = ''online'' \<and>
   getPresence (advance 60001 (setOnline empty_redis ''alice'' ''s1'')) ''alice'' = ''offline'' \<and>
   pttl (setOffline (setOnline empty_redis ''alice'' ''s1'') ''alice'' ''s1'') (presence_key ''alice'') =
     Some 60000 \<and>
   live (advance 60001 (setOffline (setOnline empty_redis ''alice'' ''s1'') ''alice'' ''s1''))
     (presence_key ''alice'') = None \<and>
   live empty_redis (presence_key ''alice'') = None \<and>
   getPresence empty_redis ''alice'' = ''offline'' \<and>
   lookup sample_server ''s4'' =
      Some \<lparr>sid = ''s4'', auth_token = Some ''access-alice'', data_user = None,
            rooms = [''s4''], connected = True\<rparr> \<and>
   jwt_verify sample_collab ''access-alice'' =
      Some \<lparr>p_sub = ''alice'', p_displayName = ''Alice''\<rparr> \<and>
   getPresence (presence (handleConnection sample_collab sample_server ''s4'')) ''alice'' = ''online''"
proof -
  let ?r = "setOnline empty_redis ''alice'' ''s1''"
  let ?c4 = "\<lparr>sid = ''s4'', auth_token = Some ''access-alice'', data_user = None,
            rooms = [''s4''], connected = True\<rparr>"
  have own: "hget ?r (presence_key ''alice'') ''socketId'' = Some ''s1''"
    by (rule socketId_setOnline)
  have none: "live empty_redis (presence_key ''alice'') = None"
    by (simp add: live_def empty_redis_def)
  have l4: "lookup sample_server ''s4'' = Some ?c4"
    by (simp add: lookup_def sample_server_def)
  have v: "jwt_verify sample_collab ''access-alice'' =
      Some \<lparr>p_sub = ''alice'', p_displayName = ''Alice''\<rparr>"
    by (simp add: sample_collab_def)
  have a: "getPresence (advance 60000 ?r) ''alice'' = ''online''"
    using presence_expiry [of empty_redis "''alice''" "''s1''" 60000] by simp
  have b: "getPresence (advance 60001 ?r) ''alice'' = ''offline''"
    using presence_expiry [of empty_redis "''alice''" "''s1''" 60001] by simp
  have c: "pttl (setOffline ?r ''alice'' ''s1'') (presence_key ''alice'') = Some 60000 \<and>
      live (advance 60001 (setOffline ?r ''alice'' ''s1'')) (presence_key ''alice'') = None"
    using presence_expiry [of ?r "''alice''" "''s1''" 60001] own by simp
  have d: "getPresence empty_redis ''alice'' = ''offline''"
    using presence_expiry [of empty_redis "''alice''"] none by simp
  have e: "getPresence (presence (handleConnection sample_collab sample_server ''s4'')) ''alice'' = ''online''"
    using presence_expiry [of _ _ _ _ sample_server "''s4''" ?c4 "''access-alice''" sample_collab
        "\<lparr>p_sub = ''alice'', p_displayName = ''Alice''\<rparr>"] l4 v
    by simp
  show ?thesis
    using own none l4 v a b c d e by simp
qed

section \<open>Properties of the message history\<close>

lemma set_order_by_created_at_desc: "set (order_by_created_at_desc X xs) = set xs"
  by (simp add: order_by_created_at_desc_def)

lemma count_list_sort_key: "count_list (sort_key f xs) y = count_list xs y"
  by (simp add: count_list_eq_length_filter filter_sort)

lemma count_list_order_by_created_at_desc:
  "count_list (order_by_created_at_desc X xs) y = count_list xs y"
  by (simp add: order_by_created_at_desc_def count_list_sort_key)

lemma count_list_filter_le: "count_list (filter P xs) y \<le> count_list xs y"
  by (induction xs) simp_all

lemma count_list_take_le: "count_list (take n xs) y \<le> count_list xs y"
proof -
  have "count_list (take n xs @ drop n xs) y = count_list (take n xs) y + count_list (drop n xs) y"
    by (rule count_list_append)
  then show ?thesis
    by simp
qed

lemma sorted_order_by_created_at_desc:
  "sorted_wrt (\<lambda>a b. m_createdAt b \<le> m_createdAt a) (order_by_created_at_desc X xs)"
proof -
  let ?L = "sort_key (\<lambda>m. tie_rank X (m_id m)) xs"
  have "sorted (map m_createdAt (sort_key m_createdAt ?L))"
    by (rule sorted_sort_key)
  then have "sorted_wrt (\<lambda>a b. m_createdAt a \<le> m_createdAt b) (sort_key m_createdAt ?L)"
    by (simp add: sorted_map)
  then show ?thesis
    by (simp add: order_by_created_at_desc_def sorted_wrt_rev)
qed

lemma take_newest_first_page:
  "newest_first_page table eligible n (take n (order_by_created_at_desc X (filter eligible table)))"
proof -
  let ?L = "order_by_created_at_desc X (filter eligible table)"
  have srt: "sorted_wrt (\<lambda>a b. m_createdAt b \<le> m_createdAt a) (take n ?L @ drop n ?L)"
    using sorted_order_by_created_at_desc [of X "filter eligible table"]
    by (simp only: append_take_drop_id)
  have mem: "\<forall>m \<in> set (take n ?L). m \<in> set table \<and> eligible m"
    using set_take_subset [of n ?L] by (auto simp: set_order_by_created_at_desc)
  have cnt: "count_list (take n ?L) m \<le> count_list table m" for m
  proof -
    have "count_list (take n ?L) m \<le> count_list ?L m"
      by (rule count_list_take_le)
    also have "\<dots> = count_list (filter eligible table) m"
      by (rule count_list_order_by_created_at_desc)
    also have "\<dots> \<le> count_list table m"
      by (rule count_list_filter_le)
    finally show ?thesis .
  qed
  have rest: "length (take n ?L) = n \<and> (\<forall>m' \<in> set (take n ?L). m_createdAt m \<le> m_createdAt m')"
    if "m \<in> set table" "eligible m" "m \<notin> set (take n ?L)" for m
  proof -
    have "m \<in> set ?L"
      using that(1,2) by (simp add: set_order_by_created_at_desc)
    then have "m \<in> set (take n ?L) \<union> set (drop n ?L)"
      by (metis append_take_drop_id set_append)
    then have d: "m \<in> set (drop n ?L)"
      using that(3) by blast
    then have "n < length ?L"
      by (cases "n < length ?L") auto
    then have "length (take n ?L) = n"
      by simp
    moreover have "\<forall>m' \<in> set (take n ?L). m_createdAt m \<le> m_createdAt m'"
      using srt d unfolding sorted_wrt_append by blast
    ultimately show ?thesis
      by simp
  qed
  have st: "sorted_wrt (\<lambda>a b. m_createdAt b \<le> m_createdAt a) (take n ?L)"
    using srt unfolding sorted_wrt_append by blast
  show ?thesis
    unfolding newest_first_page_def
  proof (intro conjI ballI impI)
    show "length (take n ?L) \<le> n"
      by simp
    show "sorted_wrt (\<lambda>a b. m_createdAt b \<le> m_createdAt a) (take n ?L)"
      by (rule st)
  next
    fix m assume "m \<in> set (take n ?L)"
    then show "m \<in> set table" "eligible m"
      using mem by blast+
  next
    fix m assume "m \<in> set (take n ?L)"
    show "count_list (take n ?L) m \<le> count_list table m"
      by (rule cnt)
  next
    fix m assume "m \<in> set table" "eligible m \<and> m \<notin> set (take n ?L)"
    then show "length (take n ?L) = n"
      using rest by blast
  next
    fix m m' assume "m \<in> set table" "eligible m \<and> m \<notin> set (take n ?L)" "m' \<in> set (take n ?L)"
    then show "m_createdAt m \<le> m_createdAt m'"
      using rest by blast
  qed
qed

lemma listMessages_no_cursor:
  assumes "0 \<le> n" and "n < 2 ^ 63" and "before = None \<or> before = Some []"
  shows "listMessages X s ch (Some (Integer n)) before =
         Inr (take (nat n) (order_by_created_at_desc X
                (filter (\<lambda>m. m_channelId m = ch) (messages s))))"
  using assms by (auto simp: listMessages_def)

lemma listMessages_cursor:
  assumes "0 \<le> n" and "n < 2 ^ 63" and "b \<noteq> []" and "timestamp_in X b = Some t"
  shows "listMessages X s ch (Some (Integer n)) (Some b) =
         Inr (take (nat n) (order_by_created_at_desc X
                (filter (\<lambda>m. m_channelId m = ch \<and> m_createdAt m < t) (messages s))))"
proof -
  have "filter (\<lambda>m. m_createdAt m < t) (filter (\<lambda>m. m_channelId m = ch) (messages s)) =
        filter (\<lambda>m. m_channelId m = ch \<and> m_createdAt m < t) (messages s)"
    by (simp add: conj_commute)
  then show ?thesis
    using assms by (simp add: listMessages_def)
qed

lemma listMessages_rejects:
  "n < 0 \<or> 2 ^ 63 \<le> n \<Longrightarrow> listMessages X s ch (Some (Integer n)) before = Inl DatabaseError"
  "listMessages X s ch (Some NonInteger) before = Inl DatabaseError"
  "b \<noteq> [] \<Longrightarrow> timestamp_in X b = None \<Longrightarrow> listMessages X s ch limit (Some b) = Inl DatabaseError"
  by (auto simp: listMessages_def Let_def split: option.splits)

lemma sorted_partition:
  "sorted (map f xs) \<Longrightarrow>
   xs = filter (\<lambda>x. f x < t) xs @ filter (\<lambda>x. \<not> f x < t) xs"
proof (induction xs)
  case Nil
  show ?case by simp
next
  case (Cons a xs)
  show ?case
  proof (cases "f a < t")
    case True
    then show ?thesis
      using Cons by simp
  next
    case False
    have "\<forall>x \<in> set xs. \<not> f x < t"
      using Cons.prems False by auto
    then have "filter (\<lambda>x. f x < t) xs = []" and "filter (\<lambda>x. \<not> f x < t) xs = xs"
      by (simp_all add: filter_empty_conv)
    then show ?thesis
      using False by simp
  qed
qed

lemma sort_key_two:
  fixes f :: "'a \<Rightarrow> nat"
  assumes "f a < f b"
  shows "sort_key f (sort_key g [a, b]) = [a, b]"
  using assms by (simp add: sort_key_def)

lemma two_newest:
  assumes "filter (\<lambda>x. \<not> m_createdAt x < t) rows = [a, b]"
    and "m_createdAt a < m_createdAt b"
  shows "take 2 (order_by_created_at_desc X rows) = [b, a]"
proof -
  let ?g = "\<lambda>m. tie_rank X (m_id m)"
  let ?S = "sort_key m_createdAt (sort_key ?g rows)"
  have "filter (\<lambda>x. \<not> m_createdAt x < t) ?S =
      sort_key m_createdAt (sort_key ?g (filter (\<lambda>x. \<not> m_createdAt x < t) rows))"
    by (simp add: filter_sort)
  also have "\<dots> = [a, b]"
    using assms by (simp only: sort_key_two)
  finally have top: "filter (\<lambda>x. \<not> m_createdAt x < t) ?S = [a, b]" .
  define P where "P = filter (\<lambda>x. m_createdAt x < t) ?S"
  have "?S = filter (\<lambda>x. m_createdAt x < t) ?S @ filter (\<lambda>x. \<not> m_createdAt x < t) ?S"
    by (rule sorted_partition) (rule sorted_sort_key)
  then have eq: "?S = P @ [a, b]"
    by (simp only: top P_def)
  have "rev ?S = rev (P @ [a, b])"
    by (simp only: eq [symmetric])
  then have "rev ?S = b # a # rev P"
    by simp
  then show ?thesis
    by (simp add: order_by_created_at_desc_def)
qed

lemma three_messages_pages:
  assumes old: "\<forall>m \<in> set old. m_channelId m = ch \<longrightarrow> m_createdAt m < m_createdAt a"
    and ab: "m_createdAt a < m_createdAt b" and bc: "m_createdAt b < m_createdAt c"
    and ch: "m_channelId a = ch" "m_channelId b = ch" "m_channelId c = ch"
  shows "take 2 (order_by_created_at_desc X
            (filter (\<lambda>m. m_channelId m = ch) (old @ [a, b, c]))) = [c, b]"
    and "take 2 (order_by_created_at_desc X
            (filter (\<lambda>m. m_channelId m = ch \<and> m_createdAt m < m_createdAt c) (old @ [a, b, c]))) =
         [b, a]"
proof -
  have "filter (\<lambda>x. \<not> m_createdAt x < m_createdAt b)
          (filter (\<lambda>m. m_channelId m = ch) (old @ [a, b, c])) = [b, c]"
    using old ab bc ch by (auto simp: filter_empty_conv)
  then show "take 2 (order_by_created_at_desc X
            (filter (\<lambda>m. m_channelId m = ch) (old @ [a, b, c]))) = [c, b]"
    using bc by (rule two_newest)
  have "filter (\<lambda>x. \<not> m_createdAt x < m_createdAt a)
          (filter (\<lambda>m. m_channelId m = ch \<and> m_createdAt m < m_createdAt c) (old @ [a, b, c])) =
        [a, b]"
    using old ab bc ch by (auto simp: filter_empty_conv)
  then show "take 2 (order_by_created_at_desc X
            (filter (\<lambda>m. m_channelId m = ch \<and> m_createdAt m < m_createdAt c) (old @ [a, b, c]))) =
         [b, a]"
    using ab by (rule two_newest)
qed

lemma createMessage_db_now:
  "db_now (fst (createMessage X s channelId senderId content attachmentIds)) = db_now s"
  by (simp add: createMessage_def Let_def split: option.splits)

lemma createMessage_result:
  assumes "createMessage X s channelId senderId content attachmentIds = (s', msg)"
  shows "messages s' = messages s @ [msg]" and "db_now s' = db_now s"
    and "m_channelId msg = channelId" and "m_createdAt msg = db_now s"
  using assms createMessage_messages [of X s channelId senderId content attachmentIds]
    createMessage_db_now [of X s channelId senderId content attachmentIds]
    createMessage_row [of X s channelId senderId content attachmentIds]
  by auto

lemma db_advance_fields:
  "messages (db_advance d s) = messages s" "db_now (db_advance d s) = db_now s + d"
  by (simp_all add: db_advance_def)

text \<open>
  C5, as stated, fails when the three messages get the same creation time: the cursor
  \<open>before = M3.createdAt\<close> then excludes all three, whatever order the database gives
  to rows of equal time.
\<close>

theorem listMessages_example_counterexample:
  "messages burst_history =
     [\<lparr>m_id = ''m1'', m_channelId = ''general'', m_senderId = ''alice'', m_content = ''one'',
       m_createdAt = 30\<rparr>,
      \<lparr>m_id = ''m2'', m_channelId = ''general'', m_senderId = ''bob'', m_content = ''two'',
       m_createdAt = 30\<rparr>,
      \<lparr>m_id = ''m3'', m_channelId = ''general'', m_senderId = ''alice'', m_content = ''three'',
       m_createdAt = 30\<rparr>] \<and>
   timestamp_in sample_collab ''T30'' = Some 30 \<and>
   listMessages sample_collab burst_history ''general'' (Some (Integer 2)) (Some ''T30'') = Inr []"
  by (simp add: burst_history_def createMessage_def db_advance_def empty_db_def
        sample_collab_def listMessages_def order_by_created_at_desc_def Let_def)

text \<open>
  C5 (amended).  Pagination of \<open>listMessages\<close>.  For an integer limit \<open>n\<close> with
  \<open>0 \<le> n < 2 ^ 63\<close> the result is a page of at most \<open>n\<close> messages of the channel, newest
  first by creation time, holding the newest eligible ones; with a cursor only messages
  created strictly before it are eligible, and an empty cursor counts as none.  Any other
  limit, and a cursor the database cannot read, end in a database error.  An absent
  limit is 50 in the service; the controller passes 50 for an absent or empty limit and
  \<open>Number(limit)\<close> otherwise.  After three messages are created in a channel at strictly
  increasing times, later than the channel's earlier messages, limit 2 returns the
  third then the second, and limit 2 with the third's creation time as cursor returns
  the second then the first, whatever order the database gives to rows of equal time.
\<close>

theorem listMessages_pagination:
  "(0 \<le> n \<and> n < 2 ^ 63 \<and> (before = None \<or> before = Some []) \<longrightarrow>
      (\<exists>page. listMessages X s ch (Some (Integer n)) before = Inr page \<and>
         newest_first_page (messages s) (\<lambda>m. m_channelId m = ch) (nat n) page)) \<and>
   (0 \<le> n \<and> n < 2 ^ 63 \<and> cur \<noteq> [] \<and> timestamp_in X cur = Some t \<longrightarrow>
      (\<exists>page. listMessages X s ch (Some (Integer n)) (Some cur) = Inr page \<and>
         newest_first_page (messages s) (\<lambda>m. m_channelId m = ch \<and> m_createdAt m < t)
           (nat n) page)) \<and>
   (n < 0 \<or> 2 ^ 63 \<le> n \<longrightarrow>
      listMessages X s ch (Some (Integer n)) before = Inl DatabaseError) \<and>
   listMessages X s ch (Some NonInteger) before = Inl DatabaseError \<and>
   (cur \<noteq> [] \<and> timestamp_in X cur = None \<longrightarrow>
      listMessages X s ch limit (Some cur) = Inl DatabaseError) \<and>
   listMessages X s ch None before = listMessages X s ch (Some (Integer 50)) before \<and>
   controller_listMessages X s ch None before =
     listMessages X s ch (Some (Integer 50)) before \<and>
   controller_listMessages X s ch (Some []) before =
     listMessages X s ch (Some (Integer 50)) before \<and>
   (l \<noteq> [] \<longrightarrow>
      controller_listMessages X s ch (Some l) before =
        listMessages X s ch (Some (js_Number X l)) before) \<and>
   ((\<forall>m \<in> set (messages old). m_channelId m = ch \<longrightarrow> m_createdAt m < db_now old) \<and>
    0 < da \<and> 0 < db \<and>
    createMessage Xa old ch ua ca aa = (sa, Ma) \<and>
    createMessage Xb (db_advance da sa) ch ub cb ab = (sb, Mb) \<and>
    createMessage Xc (db_advance db sb) ch uc cc ac = (sc, Mc) \<longrightarrow>
      listMessages X (db_advance dc sc) ch (Some (Integer 2)) None = Inr [Mc, Mb] \<and>
      (cur \<noteq> [] \<and> timestamp_in X cur = Some (m_createdAt Mc) \<longrightarrow>
         listMessages X (db_advance dc sc) ch (Some (Integer 2)) (Some cur) = Inr [Mb, Ma]))"
proof (intro conjI impI)
  assume "0 \<le> n \<and> n < 2 ^ 63 \<and> (before = None \<or> before = Some [])"
  then show "\<exists>page. listMessages X s ch (Some (Integer n)) before = Inr page \<and>
         newest_first_page (messages s) (\<lambda>m. m_channelId m = ch) (nat n) page"
    using listMessages_no_cursor [of n before X s ch] take_newest_first_page by simp
next
  assume "0 \<le> n \<and> n < 2 ^ 63 \<and> cur \<noteq> [] \<and> timestamp_in X cur = Some t"
  then show "\<exists>page. listMessages X s ch (Some (Integer n)) (Some cur) = Inr page \<and>
         newest_first_page (messages s) (\<lambda>m. m_channelId m = ch \<and> m_createdAt m < t)
           (nat n) page"
    using listMessages_cursor [of n cur X t s ch] take_newest_first_page by simp
next
  assume "n < 0 \<or> 2 ^ 63 \<le> n"
  then show "listMessages X s ch (Some (Integer n)) before = Inl DatabaseError"
    by (rule listMessages_rejects(1))
next
  show "listMessages X s ch (Some NonInteger) before = Inl DatabaseError"
    by (rule listMessages_rejects(2))
next
  assume "cur \<noteq> [] \<and> timestamp_in X cur = None"
  then show "listMessages X s ch limit (Some cur) = Inl DatabaseError"
    using listMessages_rejects(3) by blast
next
  show "listMessages X s ch None before = listMessages X s ch (Some (Integer 50)) before"
    by (simp add: listMessages_def)
  show "controller_listMessages X s ch None before =
     listMessages X s ch (Some (Integer 50)) before"
    by (simp add: controller_listMessages_def)
  show "controller_listMessages X s ch (Some []) before =
     listMessages X s ch (Some (Integer 50)) before"
    by (simp add: controller_listMessages_def)
next
  assume "l \<noteq> []"
  then show "controller_listMessages X s ch (Some l) before =
        listMessages X s ch (Some (js_Number X l)) before"
    by (simp add: controller_listMessages_def)
next
  assume h: "(\<forall>m \<in> set (messages old). m_channelId m = ch \<longrightarrow> m_createdAt m < db_now old) \<and>
    0 < da \<and> 0 < db \<and>
    createMessage Xa old ch ua ca aa = (sa, Ma) \<and>
    createMessage Xb (db_advance da sa) ch ub cb ab = (sb, Mb) \<and>
    createMessage Xc (db_advance db sb) ch uc cc ac = (sc, Mc)"
  then have ca: "createMessage Xa old ch ua ca aa = (sa, Ma)"
    and cb: "createMessage Xb (db_advance da sa) ch ub cb ab = (sb, Mb)"
    and cc: "createMessage Xc (db_advance db sb) ch uc cc ac = (sc, Mc)"
    by simp_all
  note r1 = createMessage_result [OF ca]
  note r2 = createMessage_result [OF cb]
  note r3 = createMessage_result [OF cc]
  have tbl: "messages (db_advance dc sc) = messages old @ [Ma, Mb, Mc]"
    by (simp add: db_advance_fields r1 r2 r3)
  have t1: "m_createdAt Ma = db_now old"
    by (rule r1(4))
  have t2: "m_createdAt Mb = db_now old + da"
    by (simp add: r2 r1 db_advance_fields)
  have t3: "m_createdAt Mc = db_now old + da + db"
    by (simp add: r3 r2 r1 db_advance_fields)
  have old: "\<forall>m \<in> set (messages old). m_channelId m = ch \<longrightarrow> m_createdAt m < m_createdAt Ma"
    using h t1 by simp
  have ab: "m_createdAt Ma < m_createdAt Mb" and bc: "m_createdAt Mb < m_createdAt Mc"
    using h t1 t2 t3 by simp_all
  note pages = three_messages_pages [OF old ab bc r1(3) r2(3) r3(3)]
  show "listMessages X (db_advance dc sc) ch (Some (Integer 2)) None = Inr [Mc, Mb]"
    using listMessages_no_cursor [of 2 None X "db_advance dc sc" ch] pages(1) [of X]
    by (simp add: tbl)
  show "listMessages X (db_advance dc sc) ch (Some (Integer 2)) (Some cur) = Inr [Mb, Ma]"
    if "cur \<noteq> [] \<and> timestamp_in X cur = Some (m_createdAt Mc)"
    using listMessages_cursor [of 2 cur X "m_createdAt Mc" "db_advance dc sc" ch] pages(2) [of X] that
    by (simp add: tbl)
qed

theorem listMessages_pagination_witness:
  "timestamp_in sample_collab ''T30'' = Some 30 \<and>
   listMessages sample_collab sample_history ''general'' (Some (Integer 2)) None =
     Inr [\<lparr>m_id = ''m3'', m_channelId = ''general'', m_senderId = ''alice'', m_content = ''three'',
            m_createdAt = 30\<rparr>,
          \<lparr>m_id = ''m2'', m_channelId = ''general'', m_senderId = ''bob'', m_content = ''two'',
            m_createdAt = 20\<rparr>] \<and>
   listMessages sample_collab sample_history ''general'' (Some (Integer 2)) (Some ''T30'') =
     Inr [\<lparr>m_id = ''m2'', m_channelId = ''general'', m_senderId = ''bob'', m_content = ''two'',
            m_createdAt = 20\<rparr>,
          \<lparr>m_id = ''m1'', m_channelId = ''general'', m_senderId = ''alice'', m_content = ''one'',
            m_createdAt = 10\<rparr>] \<and>
   controller_listMessages sample_collab sample_history ''general'' None None =
     listMessages sample_collab sample_history ''general'' (Some (Integer 50)) None \<and>
   controller_listMessages sample_collab sample_history ''general'' (Some ''2'') None =
     listMessages sample_collab sample_history ''general'' (Some (Integer 2)) None \<and>
   listMessages sample_collab sample_history ''general'' (Some (Integer (- 1))) None =
     Inl DatabaseError"
proof -
  let ?Xa = "sample_collab\<lparr>uuidv4 := \<lambda>n. ''m1''\<rparr>"
  let ?Xb = "sample_collab\<lparr>uuidv4 := \<lambda>n. ''m2''\<rparr>"
  let ?Xc = "sample_collab\<lparr>uuidv4 := \<lambda>n. ''m3''\<rparr>"
  let ?ca = "createMessage ?Xa sample_db ''general'' ''alice'' ''one'' None"
  let ?cb = "createMessage ?Xb (db_advance 10 (fst ?ca)) ''general'' ''bob'' ''two'' None"
  let ?cc = "createMessage ?Xc (db_advance 10 (fst ?cb)) ''general'' ''alice'' ''three'' None"
  have hist: "sample_history = db_advance 0 (fst ?cc)"
    by (simp add: sample_history_def db_advance_def)
  have older: "\<forall>m \<in> set (messages sample_db). m_channelId m = ''general'' \<longrightarrow>
      m_createdAt m < db_now sample_db"
    by (simp add: sample_db_def empty_db_def)
  have ts: "timestamp_in sample_collab ''T30'' = Some 30"
    by (simp add: sample_collab_def)
  have now: "db_now sample_db = 10"
    by (simp add: sample_db_def)
  have ma: "snd ?ca = \<lparr>m_id = ''m1'', m_channelId = ''general'', m_senderId = ''alice'',
      m_content = ''one'', m_createdAt = 10\<rparr>"
    by (simp add: createMessage_row now)
  have mb: "snd ?cb = \<lparr>m_id = ''m2'', m_channelId = ''general'', m_senderId = ''bob'',
      m_content = ''two'', m_createdAt = 20\<rparr>"
    by (simp add: createMessage_row createMessage_db_now db_advance_fields now)
  have mc: "snd ?cc = \<lparr>m_id = ''m3'', m_channelId = ''general'', m_senderId = ''alice'',
      m_content = ''three'', m_createdAt = 30\<rparr>"
    by (simp add: createMessage_row createMessage_db_now db_advance_fields now)
  have t30: "m_createdAt (snd ?cc) = 30"
    by (simp add: mc)
  note inst = listMessages_pagination
    [where n = 2 and before = None and X = sample_collab and s = sample_history
       and ch = "''general''" and cur = "''T30''" and t = 30
       and l = "''2''"
       and old = sample_db and da = 10 and db = 10 and dc = 0
       and Xa = ?Xa and ua = "''alice''" and ca = "''one''" and aa = None
       and sa = "fst ?ca" and Ma = "snd ?ca"
       and Xb = ?Xb and ub = "''bob''" and cb = "''two''" and ab = None
       and sb = "fst ?cb" and Mb = "snd ?cb"
       and Xc = ?Xc and uc = "''alice''" and cc = "''three''" and ac = None
       and sc = "fst ?cc" and Mc = "snd ?cc"]
  have ex: "listMessages sample_collab sample_history ''general'' (Some (Integer 2)) None =
        Inr [snd ?cc, snd ?cb] \<and>
      listMessages sample_collab sample_history ''general'' (Some (Integer 2)) (Some ''T30'') =
        Inr [snd ?cb, snd ?ca]"
    using inst older ts t30 by (simp add: hist [symmetric])
  have dflt: "controller_listMessages sample_collab sample_history ''general'' None None =
     listMessages sample_collab sample_history ''general'' (Some (Integer 50)) None"
    using inst by simp
  have num: "js_Number sample_collab ''2'' = Integer 2"
    by (simp add: sample_collab_def)
  have ctl: "controller_listMessages sample_collab sample_history ''general'' (Some ''2'') None =
     listMessages sample_collab sample_history ''general'' (Some (Integer 2)) None"
    using inst by (simp add: num)
  have neg: "listMessages sample_collab sample_history ''general'' (Some (Integer (- 1))) None =
     Inl DatabaseError"
    using listMessages_pagination
      [where n = "- 1" and before = None and X = sample_collab and s = sample_history
         and ch = "''general''"]
    by simp
  show ?thesis
    using ts ex dflt ctl neg by (simp add: ma mb mc)
qed

section \<open>Properties of channel creation\<close>

lemma set_array_from_set: "set (array_from_set xs) = set xs"
  by (induction xs rule: array_from_set.induct) auto

lemma distinct_array_from_set: "distinct (array_from_set xs)"
  by (induction xs rule: array_from_set.induct) (auto simp: set_array_from_set)

lemma array_from_set_distinct: "distinct xs \<Longrightarrow> array_from_set xs = xs"
proof (induction xs rule: array_from_set.induct)
  case 1
  show ?case by simp
next
  case (2 x xs)
  have "filter (\<lambda>y. y \<noteq> x) xs = xs"
    using 2(2) by (auto intro: filter_True)
  then show ?case
    using 2 by simp
qed

lemma length_array_from_set: "length (array_from_set xs) = card (set xs)"
  using distinct_card [OF distinct_array_from_set, of xs]
  by (simp add: set_array_from_set)

lemma createChannel_summary:
  "snd (createChannel X s name isGroup memberIds) =
     \<lparr>cs_id = uuidv4 X 0, cs_name = name, cs_isGroup = isGroup, cs_memberIds = memberIds\<rparr>"
  by (simp add: createChannel_def Let_def)





lemma controller_createChannel_eq:
  "controller_createChannel X s name body r =
     createChannel X s name
       (2 < card (insert r (set (case body of None \<Rightarrow> [] | Some ids \<Rightarrow> ids))))
       (array_from_set (r # (case body of None \<Rightarrow> [] | Some ids \<Rightarrow> ids)))"
  using length_array_from_set [of "r # (case body of None \<Rightarrow> [] | Some ids \<Rightarrow> ids)"]
  by (simp add: controller_createChannel_def Let_def del: array_from_set.simps)



section \<open>The group flag\<close>

text \<open>
  C6, as stated, fails when the \<open>memberIds\<close> of the request are taken for the
  channel's member list: a request by a third
  user whose body lists two distinct users creates a channel of three members, flagged
  as a group.
\<close>

theorem group_flag_counterexample:
  "cs_isGroup (snd (controller_createChannel sample_collab empty_db ''chat''
                      (Some [''u1'', ''u2'']) ''u3'')) \<and>
   cs_memberIds (snd (controller_createChannel sample_collab empty_db ''chat''
                      (Some [''u1'', ''u2'']) ''u3'')) = [''u3'', ''u1'', ''u2'']"
  by (simp add: controller_createChannel_def createChannel_def Let_def)

text \<open>
  C6 (amended).  The group flag set by the channel-creation endpoint is true exactly
  when the channel's member set, the requester together with the ids of the body with
  duplicates removed, has more than two elements.  So a channel whose member list is
  \<open>[ua, ub, uc]\<close> is a group and one whose member list is \<open>[ua, ub]\<close> is not; a body
  listing three distinct users yields a group whoever sends it; a body listing
  \<open>[ua, ub]\<close> yields no group when sent by \<open>ua\<close> or \<open>ub\<close>, and a group when the
  two are distinct and the request is sent by a third user.
\<close>

theorem group_flag_determination:
  "(controller_createChannel X s name body r = (s', ch) \<longrightarrow>
      (cs_isGroup ch \<longleftrightarrow> 2 < card (set (cs_memberIds ch))) \<and>
      (cs_memberIds ch = [ua, ub, uc] \<longrightarrow> cs_isGroup ch) \<and>
      (cs_memberIds ch = [ua, ub] \<longrightarrow> \<not> cs_isGroup ch)) \<and>
   (distinct [ua, ub, uc] \<longrightarrow>
      cs_isGroup (snd (controller_createChannel X s name (Some [ua, ub, uc]) r))) \<and>
   (r \<in> {ua, ub} \<longrightarrow>
      \<not> cs_isGroup (snd (controller_createChannel X s name (Some [ua, ub]) r))) \<and>
   (ua \<noteq> ub \<and> r \<notin> {ua, ub} \<longrightarrow>
      cs_isGroup (snd (controller_createChannel X s name (Some [ua, ub]) r)))"
proof (intro conjI impI)
  assume run: "controller_createChannel X s name body r = (s', ch)"
  let ?ms = "array_from_set (r # (case body of None \<Rightarrow> [] | Some ids \<Rightarrow> ids))"
  have ch: "cs_isGroup ch = (2 < length ?ms)" "cs_memberIds ch = ?ms"
    using run createChannel_summary [of X s name "2 < length ?ms" ?ms]
    by (auto simp: controller_createChannel_def Let_def simp del: array_from_set.simps)
  show "cs_isGroup ch \<longleftrightarrow> 2 < card (set (cs_memberIds ch))"
    using distinct_card [OF distinct_array_from_set, of "r # (case body of None \<Rightarrow> [] | Some ids \<Rightarrow> ids)"]
    by (simp add: ch del: array_from_set.simps)
  show "cs_isGroup ch" if "cs_memberIds ch = [ua, ub, uc]"
    using that ch by (simp del: array_from_set.simps)
  show "\<not> cs_isGroup ch" if "cs_memberIds ch = [ua, ub]"
    using that ch by (simp del: array_from_set.simps)
next
  assume "distinct [ua, ub, uc]"
  then have "card (insert r (set [ua, ub, uc])) \<ge> 3"
    by (auto simp: card_insert_if)
  then show "cs_isGroup (snd (controller_createChannel X s name (Some [ua, ub, uc]) r))"
    by (simp add: controller_createChannel_eq createChannel_summary del: array_from_set.simps)
next
  assume "r \<in> {ua, ub}"
  then have "card (insert r (set [ua, ub])) \<le> 2"
    by (auto simp: card_insert_if)
  then show "\<not> cs_isGroup (snd (controller_createChannel X s name (Some [ua, ub]) r))"
    by (simp add: controller_createChannel_eq createChannel_summary del: array_from_set.simps)
next
  assume "ua \<noteq> ub \<and> r \<notin> {ua, ub}"
  then have "card (insert r (set [ua, ub])) = 3"
    by (auto simp: card_insert_if)
  then show "cs_isGroup (snd (controller_createChannel X s name (Some [ua, ub]) r))"
    by (simp add: controller_createChannel_eq createChannel_summary del: array_from_set.simps)
qed

theorem group_flag_determination_witness:
  "controller_createChannel sample_collab empty_db ''chat'' (Some [''u2'', ''u3'']) ''u1'' =
     (fst (controller_createChannel sample_collab empty_db ''chat'' (Some [''u2'', ''u3'']) ''u1''),
      \<lparr>cs_id = ''i'', cs_name = ''chat'', cs_isGroup = True,
       cs_memberIds = [''u1'', ''u2'', ''u3'']\<rparr>) \<and>
   controller_createChannel sample_collab empty_db ''chat'' (Some [''u2'']) ''u1'' =
     (fst (controller_createChannel sample_collab empty_db ''chat'' (Some [''u2'']) ''u1''),
      \<lparr>cs_id = ''i'', cs_name = ''chat'', cs_isGroup = False,
       cs_memberIds = [''u1'', ''u2'']\<rparr>) \<and>
   distinct [''u1'', ''u2'', ''u3''] \<and>
   cs_isGroup (snd (controller_createChannel sample_collab empty_db ''chat''
                      (Some [''u1'', ''u2'', ''u3'']) ''u1'')) \<and>
   ''u1'' \<in> {''u1'', ''u2''} \<and>
   \<not> cs_isGroup (snd (controller_createChannel sample_collab empty_db ''chat''
                        (Some [''u1'', ''u2'']) ''u1'')) \<and>
   ''u1'' \<noteq> ''u2'' \<and> ''u3'' \<notin> {''u1'', ''u2''} \<and>
   cs_isGroup (snd (controller_createChannel sample_collab empty_db ''chat''
                      (Some [''u1'', ''u2'']) ''u3''))"
proof -
  let ?three = "\<lparr>cs_id = ''i'', cs_name = ''chat'', cs_isGroup = True,
       cs_memberIds = [''u1'', ''u2'', ''u3'']\<rparr>"
  let ?two = "\<lparr>cs_id = ''i'', cs_name = ''chat'', cs_isGroup = False,
       cs_memberIds = [''u1'', ''u2'']\<rparr>"
  have a: "snd (controller_createChannel sample_collab empty_db ''chat'' (Some [''u2'', ''u3'']) ''u1'') = ?three"
    by (simp add: controller_createChannel_def createChannel_summary sample_collab_def)
  have b: "snd (controller_createChannel sample_collab empty_db ''chat'' (Some [''u2'']) ''u1'') = ?two"
    by (simp add: controller_createChannel_def createChannel_summary sample_collab_def)
  have ra: "controller_createChannel sample_collab empty_db ''chat'' (Some [''u2'', ''u3'']) ''u1'' =
     (fst (controller_createChannel sample_collab empty_db ''chat'' (Some [''u2'', ''u3'']) ''u1''), ?three)"
    using a by (metis prod.collapse)
  have rb: "controller_createChannel sample_collab empty_db ''chat'' (Some [''u2'']) ''u1'' =
     (fst (controller_createChannel sample_collab empty_db ''chat'' (Some [''u2'']) ''u1''), ?two)"
    using b by (metis prod.collapse)
  have c: "cs_isGroup ?three \<and> \<not> cs_isGroup ?two"
    using group_flag_determination [of sample_collab empty_db "''chat''" "Some [''u2'', ''u3'']" "''u1''"
        _ ?three "''u1''" "''u2''" "''u3''"] ra
      group_flag_determination [of sample_collab empty_db "''chat''" "Some [''u2'']" "''u1''"
        _ ?two "''u1''" "''u2''" "''u3''"] rb
    by simp
  have d: "cs_isGroup (snd (controller_createChannel sample_collab empty_db ''chat''
                      (Some [''u1'', ''u2'', ''u3'']) ''u1'')) \<and>
      \<not> cs_isGroup (snd (controller_createChannel sample_collab empty_db ''chat''
                        (Some [''u1'', ''u2'']) ''u1''))"
    using group_flag_determination [of sample_collab empty_db "''chat''" None "''u1''"
        _ _ "''u1''" "''u2''" "''u3''"]
    by simp
  have e: "cs_isGroup (snd (controller_createChannel sample_collab empty_db ''chat''
                      (Some [''u1'', ''u2'']) ''u3''))"
    using group_flag_determination [of sample_collab empty_db "''chat''" None "''u3''"
        _ _ "''u1''" "''u2''" "''u3''"]
    by simp
  show ?thesis
    using ra rb d e by simp
qed

section \<open>Properties of the authentication service\<close>

lemma issueTokens_store:
  "refresh_tokens (fst (issueTokens X s userId email displayName)) =
     refresh_tokens s @
       [\<lparr>rt_id = gen_random_uuid X, rt_user_id = userId,
         rt_token_hash = bcrypt_hash X (jwt_sign X (RefreshClaims userId)) 10,
         rt_expires_at = db_now s + seven_days\<rparr>]"
  "users (fst (issueTokens X s userId email displayName)) = users s"
  "db_now (fst (issueTokens X s userId email displayName)) = db_now s"
  by (simp_all add: issueTokens_def Let_def)

lemma issueTokens_result:
  "snd (issueTokens X s userId email displayName) =
     \<lparr>accessToken = jwt_sign X (AccessClaims userId email displayName),
      refreshToken = jwt_sign X (RefreshClaims userId),
      user = \<lparr>us_id = userId, us_email = email, us_displayName = displayName\<rparr>\<rparr>"
  by (simp add: issueTokens_def Let_def)

lemma findById_Some: "findById s i = Some u \<Longrightarrow> u \<in> set (users s) \<and> u_id u = i"
  by (auto simp: findById_def find_Some_iff)

lemma findById_None: "findById s i = None \<longleftrightarrow> \<not> (\<exists>u \<in> set (users s). u_id u = i)"
  by (auto simp: findById_def find_None_iff)

lemma findByEmail_Some: "findByEmail s e = Some u \<Longrightarrow> u \<in> set (users s) \<and> u_email u = e"
  by (auto simp: findByEmail_def find_Some_iff)

lemma refresh_cases:
  "refresh X s t =
     (case find (\<lambda>row. bcrypt_compare X t (rt_token_hash row))
             (filter (\<lambda>row. db_now s < rt_expires_at row) (refresh_tokens s)) of
        None \<Rightarrow> Inl (UnauthorizedException ''Invalid refresh token'')
      | Some m \<Rightarrow>
          (case findById s (rt_user_id m) of
             None \<Rightarrow> Inl (UnauthorizedException ''User not found'')
           | Some u \<Rightarrow> Inr (issueTokens X s (u_id u) (u_email u) (u_displayName u))))"
  by (simp add: refresh_def Let_def)

lemma refresh_success_iff:
  "(\<exists>res. refresh X s t = Inr res) \<longleftrightarrow>
     (\<exists>m. find (\<lambda>row. bcrypt_compare X t (rt_token_hash row))
             (filter (\<lambda>row. db_now s < rt_expires_at row) (refresh_tokens s)) = Some m \<and>
          (\<exists>u \<in> set (users s). u_id u = rt_user_id m))"
  by (auto simp: refresh_cases findById_None split: option.splits dest: findById_Some)

lemma refresh_failure:
  "refresh X s t = Inl e \<Longrightarrow>
     e = UnauthorizedException ''Invalid refresh token'' \<or> e = UnauthorizedException ''User not found''"
  by (auto simp: refresh_cases split: option.splits)

lemma refresh_no_match:
  "\<not> (\<exists>row \<in> set (refresh_tokens s). db_now s < rt_expires_at row \<and> bcrypt_compare X t (rt_token_hash row))
   \<Longrightarrow> refresh X s t = Inl (UnauthorizedException ''Invalid refresh token'')"
proof -
  assume a: "\<not> (\<exists>row \<in> set (refresh_tokens s). db_now s < rt_expires_at row \<and> bcrypt_compare X t (rt_token_hash row))"
  have "find (\<lambda>row. bcrypt_compare X t (rt_token_hash row))
             (filter (\<lambda>row. db_now s < rt_expires_at row) (refresh_tokens s)) = None"
    using a by (auto simp: find_None_iff)
  then show ?thesis
    by (simp add: refresh_cases)
qed

lemma find_live_match:
  "(\<exists>m. find (\<lambda>row. bcrypt_compare X t (rt_token_hash row))
             (filter (\<lambda>row. db_now s < rt_expires_at row) (refresh_tokens s)) = Some m) \<longleftrightarrow>
   (\<exists>row \<in> set (refresh_tokens s). db_now s < rt_expires_at row \<and> bcrypt_compare X t (rt_token_hash row))"
proof -
  have "find (\<lambda>row. bcrypt_compare X t (rt_token_hash row))
             (filter (\<lambda>row. db_now s < rt_expires_at row) (refresh_tokens s)) = None \<longleftrightarrow>
        \<not> (\<exists>row \<in> set (refresh_tokens s). db_now s < rt_expires_at row \<and> bcrypt_compare X t (rt_token_hash row))"
    by (auto simp: find_None_iff)
  then show ?thesis
    by (metis not_Some_eq)
qed

lemma find_live_match_props:
  assumes "find (\<lambda>row. bcrypt_compare X t (rt_token_hash row))
             (filter (\<lambda>row. db_now s < rt_expires_at row) (refresh_tokens s)) = Some m"
  shows "m \<in> set (refresh_tokens s)" "db_now s < rt_expires_at m" "bcrypt_compare X t (rt_token_hash m)"
  using assms by (auto simp: find_Some_iff dest: nth_mem)

lemma refresh_success_iff_match:
  assumes "tokens_have_users s"
  shows "(\<exists>res. refresh X s t = Inr res) \<longleftrightarrow>
     (\<exists>row \<in> set (refresh_tokens s). db_now s < rt_expires_at row \<and> bcrypt_compare X t (rt_token_hash row))"
proof
  assume "\<exists>res. refresh X s t = Inr res"
  then show "\<exists>row \<in> set (refresh_tokens s). db_now s < rt_expires_at row \<and> bcrypt_compare X t (rt_token_hash row)"
    using refresh_success_iff [of X s t] find_live_match [of X t s] by blast
next
  assume "\<exists>row \<in> set (refresh_tokens s). db_now s < rt_expires_at row \<and> bcrypt_compare X t (rt_token_hash row)"
  then obtain m where m: "find (\<lambda>row. bcrypt_compare X t (rt_token_hash row))
             (filter (\<lambda>row. db_now s < rt_expires_at row) (refresh_tokens s)) = Some m"
    using find_live_match [of X t s] by blast
  then have "m \<in> set (refresh_tokens s)"
    by (rule find_live_match_props)
  then have "\<exists>u \<in> set (users s). u_id u = rt_user_id m"
    using assms by (simp add: tokens_have_users_def)
  then show "\<exists>res. refresh X s t = Inr res"
    using refresh_success_iff [of X s t] m by blast
qed

lemma issued:
  assumes "register X s e p d = Inr (s', res) \<or> login X s e p = Inr (s', res) \<or>
           refresh X s t = Inr (s', res)"
  shows "\<exists>s0 u. u \<in> set (users s0) \<and>
           issueTokens X s0 (u_id u) (u_email u) (u_displayName u) = (s', res) \<and>
           refresh_tokens s0 = refresh_tokens s \<and> db_now s0 = db_now s \<and>
           set (users s) \<subseteq> set (users s0)"
  using assms
proof (elim disjE)
  assume r: "register X s e p d = Inr (s', res)"
  let ?row = "\<lparr>u_id = uuidv4 X 0, u_email = e, u_passwordHash = bcrypt_hash X p 12,
                u_displayName = d\<rparr>"
  let ?s0 = "s\<lparr>users := users s @ [?row]\<rparr>"
  have "issueTokens X ?s0 (u_id ?row) (u_email ?row) (u_displayName ?row) = (s', res)"
    using r by (simp add: register_def createUser_def Let_def split: option.splits)
  moreover have "?row \<in> set (users ?s0)"
    by simp
  moreover have "refresh_tokens ?s0 = refresh_tokens s \<and> db_now ?s0 = db_now s \<and>
      set (users s) \<subseteq> set (users ?s0)"
    by auto
  ultimately show ?thesis
    by blast
next
  assume l: "login X s e p = Inr (s', res)"
  then have "\<exists>u. validateUser X s e p = Inr u \<and>
      issueTokens X s (u_id u) (u_email u) (u_displayName u) = (s', res)"
    by (auto simp: login_def split: sum.splits)
  then obtain u where u: "validateUser X s e p = Inr u"
    and run: "issueTokens X s (u_id u) (u_email u) (u_displayName u) = (s', res)"
    by blast
  have fe: "findByEmail s e = Some u"
    using u by (simp add: validateUser_def split: option.splits if_splits)
  have "u \<in> set (users s)"
    using findByEmail_Some [OF fe] by simp
  then show ?thesis
    using run by blast
next
  assume f: "refresh X s t = Inr (s', res)"
  then have "\<exists>u. u \<in> set (users s) \<and>
      issueTokens X s (u_id u) (u_email u) (u_displayName u) = (s', res)"
    by (auto simp: refresh_cases split: option.splits dest: findById_Some)
  then show ?thesis
    by blast
qed

lemma issueTokens_tokens_have_users:
  assumes "\<forall>row \<in> set (refresh_tokens s0). \<exists>u \<in> set (users s0). u_id u = rt_user_id row"
    and "u \<in> set (users s0)"
    and "issueTokens X s0 (u_id u) e d = (s', res)"
  shows "tokens_have_users s'"
proof -
  have s': "s' = fst (issueTokens X s0 (u_id u) e d)"
    using assms(3) by simp
  have us: "users s' = users s0"
    by (simp add: s' issueTokens_store)
  obtain new where rt: "refresh_tokens s' = refresh_tokens s0 @ [new]" and n: "rt_user_id new = u_id u"
    by (simp add: s' issueTokens_store)
  show ?thesis
    unfolding tokens_have_users_def
  proof
    fix row assume "row \<in> set (refresh_tokens s')"
    then have "row \<in> set (refresh_tokens s0) \<or> row = new"
      by (auto simp: rt)
    then show "\<exists>u \<in> set (users s'). u_id u = rt_user_id row"
      using assms(1,2) n us by auto
  qed
qed

lemma tokens_have_users_preserved:
  assumes "tokens_have_users s"
    and "register X s e p d = Inr (s', res) \<or> login X s e p = Inr (s', res) \<or>
           refresh X s t = Inr (s', res)"
  shows "tokens_have_users s'"
proof -
  from issued [OF assms(2)] obtain s0 u where u: "u \<in> set (users s0)"
    and run: "issueTokens X s0 (u_id u) (u_email u) (u_displayName u) = (s', res)"
    and same: "refresh_tokens s0 = refresh_tokens s" "set (users s) \<subseteq> set (users s0)"
    by (elim exE conjE)
  have "\<forall>row \<in> set (refresh_tokens s0). \<exists>u \<in> set (users s0). u_id u = rt_user_id row"
  proof
    fix row assume "row \<in> set (refresh_tokens s0)"
    then have "row \<in> set (refresh_tokens s)"
      by (simp add: same(1))
    then obtain v where "v \<in> set (users s)" "u_id v = rt_user_id row"
      using assms(1) unfolding tokens_have_users_def by blast
    then show "\<exists>u \<in> set (users s0). u_id u = rt_user_id row"
      using same(2) by blast
  qed
  then show ?thesis
    using u run by (rule issueTokens_tokens_have_users)
qed

text \<open>
  C8, as stated, fails on a store where a non-expired record matches the presented token
  and the record's user is missing: \<open>refresh\<close> checks for the user and rejects.
\<close>

theorem refresh_matching_counterexample:
  "refresh_tokens orphan_db =
     [\<lparr>rt_id = ''r0'', rt_user_id = ''ghost'', rt_token_hash = ''digest-tok'',
       rt_expires_at = 1000\<rparr>] \<and>
   db_now orphan_db < 1000 \<and>
   bcrypt_compare sample_collab ''tok'' ''digest-tok'' \<and>
   refresh sample_collab orphan_db ''tok'' = Inl (UnauthorizedException ''User not found'')"
  by (simp add: refresh_def findById_def orphan_db_def empty_db_def sample_collab_def)

text \<open>
  C8 (amended).  \<open>refresh\<close> succeeds exactly when the presented token compares equal,
  under the credential hasher, to the hash of at least one stored record that has not
  expired and the user named by the first such record exists.  On a store whose
  refresh-token records all name existing users, a property that register, login and
  refresh preserve, this is exactly when some non-expired record matches.  Every
  failure is an \<open>UnauthorizedException\<close>; expired records are not compared.
\<close>

theorem refresh_token_matching:
  "((\<exists>out. refresh X s t = Inr out) \<longleftrightarrow>
      (\<exists>m. find (\<lambda>row. bcrypt_compare X t (rt_token_hash row))
              (filter (\<lambda>row. db_now s < rt_expires_at row) (refresh_tokens s)) = Some m \<and>
           (\<exists>u \<in> set (users s). u_id u = rt_user_id m))) \<and>
   (tokens_have_users s \<longrightarrow>
      ((\<exists>out. refresh X s t = Inr out) \<longleftrightarrow>
         (\<exists>row \<in> set (refresh_tokens s).
            db_now s < rt_expires_at row \<and> bcrypt_compare X t (rt_token_hash row)))) \<and>
   (\<not> (\<exists>row \<in> set (refresh_tokens s).
          db_now s < rt_expires_at row \<and> bcrypt_compare X t (rt_token_hash row)) \<longrightarrow>
      refresh X s t = Inl (UnauthorizedException ''Invalid refresh token'')) \<and>
   (refresh X s t = Inl err \<longrightarrow>
      err = UnauthorizedException ''Invalid refresh token'' \<or>
      err = UnauthorizedException ''User not found'') \<and>
   (tokens_have_users s \<and>
      (register X s e p d = Inr (s', res) \<or> login X s e p = Inr (s', res) \<or>
       refresh X s t = Inr (s', res)) \<longrightarrow>
      tokens_have_users s')"
proof (intro conjI impI)
  show "(\<exists>out. refresh X s t = Inr out) \<longleftrightarrow>
      (\<exists>m. find (\<lambda>row. bcrypt_compare X t (rt_token_hash row))
              (filter (\<lambda>row. db_now s < rt_expires_at row) (refresh_tokens s)) = Some m \<and>
           (\<exists>u \<in> set (users s). u_id u = rt_user_id m))"
    by (rule refresh_success_iff)
next
  assume "tokens_have_users s"
  then show "(\<exists>out. refresh X s t = Inr out) \<longleftrightarrow>
         (\<exists>row \<in> set (refresh_tokens s).
            db_now s < rt_expires_at row \<and> bcrypt_compare X t (rt_token_hash row))"
    by (rule refresh_success_iff_match)
next
  assume "\<not> (\<exists>row \<in> set (refresh_tokens s).
          db_now s < rt_expires_at row \<and> bcrypt_compare X t (rt_token_hash row))"
  then show "refresh X s t = Inl (UnauthorizedException ''Invalid refresh token'')"
    by (rule refresh_no_match)
next
  assume "refresh X s t = Inl err"
  then show "err = UnauthorizedException ''Invalid refresh token'' \<or>
      err = UnauthorizedException ''User not found''"
    by (rule refresh_failure)
next
  assume "tokens_have_users s \<and>
      (register X s e p d = Inr (s', res) \<or> login X s e p = Inr (s', res) \<or>
       refresh X s t = Inr (s', res))"
  then show "tokens_have_users s'"
    using tokens_have_users_preserved by blast
qed

lemma registered_db_eq:
  "register sample_collab empty_db ''a@x.com'' ''correct horse'' ''Alice'' =
     Inr (empty_db
            \<lparr>users := [\<lparr>u_id = ''i'', u_email = ''a@x.com'',
                        u_passwordHash = ''digest-correct horse'', u_displayName = ''Alice''\<rparr>],
             refresh_tokens := [\<lparr>rt_id = ''r'', rt_user_id = ''i'',
                                 rt_token_hash = ''digest-refresh-i'',
                                 rt_expires_at = 604800000\<rparr>]\<rparr>,
          \<lparr>accessToken = ''access-i'', refreshToken = ''refresh-i'',
           user = \<lparr>us_id = ''i'', us_email = ''a@x.com'', us_displayName = ''Alice''\<rparr>\<rparr>)"
  by (simp add: register_def findByEmail_def createUser_def issueTokens_def Let_def
        sample_collab_def empty_db_def seven_days_def)

lemma registered_db_fields:
  "registered_db =
     empty_db
       \<lparr>users := [\<lparr>u_id = ''i'', u_email = ''a@x.com'',
                   u_passwordHash = ''digest-correct horse'', u_displayName = ''Alice''\<rparr>],
        refresh_tokens := [\<lparr>rt_id = ''r'', rt_user_id = ''i'',
                            rt_token_hash = ''digest-refresh-i'',
                            rt_expires_at = 604800000\<rparr>]\<rparr>"
  by (simp add: registered_db_def registered_db_eq)

theorem refresh_token_matching_witness:
  "register sample_collab empty_db ''a@x.com'' ''correct horse'' ''Alice'' =
     Inr (registered_db,
          \<lparr>accessToken = ''access-i'', refreshToken = ''refresh-i'',
           user = \<lparr>us_id = ''i'', us_email = ''a@x.com'', us_displayName = ''Alice''\<rparr>\<rparr>) \<and>
   \<not> isl (refresh sample_collab registered_db ''refresh-i'') \<and>
   refresh sample_collab registered_db ''forged'' =
     Inl (UnauthorizedException ''Invalid refresh token'') \<and>
   refresh sample_collab (db_advance 604800000 registered_db) ''refresh-i'' =
     Inl (UnauthorizedException ''Invalid refresh token'')"
proof -
  let ?res = "\<lparr>accessToken = ''access-i'', refreshToken = ''refresh-i'',
           user = \<lparr>us_id = ''i'', us_email = ''a@x.com'', us_displayName = ''Alice''\<rparr>\<rparr>"
  have e: "tokens_have_users empty_db"
    by (simp add: tokens_have_users_def empty_db_def)
  have reg: "register sample_collab empty_db ''a@x.com'' ''correct horse'' ''Alice'' =
      Inr (registered_db, ?res)"
    by (simp add: registered_db_eq registered_db_fields)
  have inv: "tokens_have_users registered_db"
    using refresh_token_matching [where X = sample_collab and s = empty_db
        and e = "''a@x.com''" and p = "''correct horse''" and d = "''Alice''"
        and s' = registered_db and res = ?res] e reg
    by simp
  have rows: "refresh_tokens registered_db =
      [\<lparr>rt_id = ''r'', rt_user_id = ''i'', rt_token_hash = ''digest-refresh-i'',
        rt_expires_at = 604800000\<rparr>]"
    and now: "db_now registered_db = 0"
    by (simp_all add: registered_db_fields empty_db_def)
  have cmp: "bcrypt_compare sample_collab ''refresh-i'' ''digest-refresh-i''"
    "\<not> bcrypt_compare sample_collab ''forged'' ''digest-refresh-i''"
    by (simp_all add: sample_collab_def)
  have "\<exists>out. refresh sample_collab registered_db ''refresh-i'' = Inr out"
    using refresh_token_matching [of sample_collab registered_db "''refresh-i''",
        THEN conjunct2, THEN conjunct1] inv
    by (simp add: rows now cmp)
  then have ok: "\<not> isl (refresh sample_collab registered_db ''refresh-i'')"
    by auto
  have forged: "refresh sample_collab registered_db ''forged'' =
      Inl (UnauthorizedException ''Invalid refresh token'')"
    using refresh_token_matching [of sample_collab registered_db "''forged''",
        THEN conjunct2, THEN conjunct2, THEN conjunct1]
    by (simp add: rows now cmp)
  have expired: "refresh sample_collab (db_advance 604800000 registered_db) ''refresh-i'' =
      Inl (UnauthorizedException ''Invalid refresh token'')"
    using refresh_token_matching
        [of sample_collab "db_advance 604800000 registered_db" "''refresh-i''",
         THEN conjunct2, THEN conjunct2, THEN conjunct1]
    by (simp add: db_advance_def rows now)
  show ?thesis
    using reg ok forged expired by simp
qed

lemma seven_days_pos: "0 < seven_days"
  by (simp add: seven_days_def)

lemma one_user_db_eq:
  "register (bcrypt72_collab ann_id) empty_db ''ann@x.com'' ''password of ann'' ''Ann'' =
     Inr (empty_db
            \<lparr>users := [\<lparr>u_id = ann_id, u_email = ''ann@x.com'',
                        u_passwordHash = ''digest-password of ann'', u_displayName = ''Ann''\<rparr>],
             refresh_tokens :=
               [\<lparr>rt_id = ''r'', rt_user_id = ann_id,
                 rt_token_hash =
                   ''digest-eyJhbGciOiJIUzI1NiIsInR5cCI6IkpXVCJ9.sub=3f2b8c1e-9a4d-4e6f-8b2a-1c5d7e9'',
                 rt_expires_at = 604800000\<rparr>]\<rparr>,
          \<lparr>accessToken = ''access-'' @ ann_id,
           refreshToken = ''eyJhbGciOiJIUzI1NiIsInR5cCI6IkpXVCJ9.sub='' @ ann_id,
           user = \<lparr>us_id = ann_id, us_email = ''ann@x.com'', us_displayName = ''Ann''\<rparr>\<rparr>)"
  by (simp add: register_def findByEmail_def createUser_def issueTokens_def Let_def
        bcrypt72_collab_def sample_collab_def empty_db_def seven_days_def ann_id_def)

lemma issueTokens_round_trip:
  assumes u: "u \<in> set (users s0)"
    and run: "issueTokens X s0 (u_id u) e d = (s', res)"
    and hasher: "bcrypt_compare Y (refreshToken res) (bcrypt_hash X (refreshToken res) 10)"
    and owner: "\<forall>row \<in> set (refresh_tokens s').
                  db_now s' < rt_expires_at row \<and>
                  bcrypt_compare Y (refreshToken res) (rt_token_hash row) \<longrightarrow>
                  rt_user_id row = us_id (user res)"
  shows "\<exists>s'' res'. refresh Y s' (refreshToken res) = Inr (s'', res') \<and>
           us_id (user res') = us_id (user res)"
proof -
  let ?new = "\<lparr>rt_id = gen_random_uuid X, rt_user_id = u_id u,
         rt_token_hash = bcrypt_hash X (jwt_sign X (RefreshClaims (u_id u))) 10,
         rt_expires_at = db_now s0 + seven_days\<rparr>"
  have s': "s' = fst (issueTokens X s0 (u_id u) e d)" and res: "res = snd (issueTokens X s0 (u_id u) e d)"
    using run by simp_all
  have tok: "refreshToken res = jwt_sign X (RefreshClaims (u_id u))" and uid: "us_id (user res) = u_id u"
    by (simp_all add: res issueTokens_result)
  have rows: "refresh_tokens s' = refresh_tokens s0 @ [?new]"
    and us: "users s' = users s0" and now: "db_now s' = db_now s0"
    by (simp_all add: s' issueTokens_store)
  have "?new \<in> set (refresh_tokens s')"
    by (simp add: rows)
  moreover have "db_now s' < rt_expires_at ?new"
    using seven_days_pos by (simp add: now)
  moreover have "bcrypt_compare Y (refreshToken res) (rt_token_hash ?new)"
    using hasher by (simp add: tok)
  ultimately have "\<exists>row \<in> set (refresh_tokens s'). db_now s' < rt_expires_at row \<and>
      bcrypt_compare Y (refreshToken res) (rt_token_hash row)"
    by blast
  then obtain m where m: "find (\<lambda>row. bcrypt_compare Y (refreshToken res) (rt_token_hash row))
             (filter (\<lambda>row. db_now s' < rt_expires_at row) (refresh_tokens s')) = Some m"
    using find_live_match [of Y "refreshToken res" s'] by blast
  note mp = find_live_match_props [OF m]
  have mu: "rt_user_id m = u_id u"
    using owner mp uid by simp
  have "findById s' (u_id u) \<noteq> None"
    using u by (simp add: findById_None us) blast
  then obtain v where v: "findById s' (u_id u) = Some v"
    by blast
  have vid: "u_id v = u_id u"
    using findById_Some [OF v] by simp
  have "refresh Y s' (refreshToken res) =
      Inr (issueTokens Y s' (u_id v) (u_email v) (u_displayName v))"
    by (simp add: refresh_cases m mu v)
  moreover have "us_id (user (snd (issueTokens Y s' (u_id v) (u_email v) (u_displayName v)))) =
      us_id (user res)"
    by (simp add: issueTokens_result vid uid)
  ultimately show ?thesis
    by (metis prod.collapse)
qed

lemma issueTokens_record:
  assumes run: "issueTokens X s0 uid e d = (s', res)"
  shows "refresh_tokens s' = refresh_tokens s0 @
           [\<lparr>rt_id = gen_random_uuid X, rt_user_id = us_id (user res),
             rt_token_hash = bcrypt_hash X (refreshToken res) 10,
             rt_expires_at = db_now s' + seven_days\<rparr>]"
proof -
  have s': "s' = fst (issueTokens X s0 uid e d)" and res: "res = snd (issueTokens X s0 uid e d)"
    using run by simp_all
  show ?thesis
    by (simp add: s' res issueTokens_store issueTokens_result)
qed

lemma one_user_db_fields:
  "one_user_db =
     empty_db
       \<lparr>users := [\<lparr>u_id = ann_id, u_email = ''ann@x.com'',
                   u_passwordHash = ''digest-password of ann'', u_displayName = ''Ann''\<rparr>],
        refresh_tokens :=
          [\<lparr>rt_id = ''r'', rt_user_id = ann_id,
            rt_token_hash =
              ''digest-eyJhbGciOiJIUzI1NiIsInR5cCI6IkpXVCJ9.sub=3f2b8c1e-9a4d-4e6f-8b2a-1c5d7e9'',
            rt_expires_at = 604800000\<rparr>]\<rparr>"
  by (simp add: one_user_db_def one_user_db_eq)

lemma two_users_db_eq:
  "register (bcrypt72_collab ben_id) one_user_db ''ben@x.com'' ''password of ben'' ''Ben'' =
     Inr (empty_db
            \<lparr>users := [\<lparr>u_id = ann_id, u_email = ''ann@x.com'',
                        u_passwordHash = ''digest-password of ann'', u_displayName = ''Ann''\<rparr>,
                       \<lparr>u_id = ben_id, u_email = ''ben@x.com'',
                        u_passwordHash = ''digest-password of ben'', u_displayName = ''Ben''\<rparr>],
             refresh_tokens :=
               [\<lparr>rt_id = ''r'', rt_user_id = ann_id,
                 rt_token_hash =
                   ''digest-eyJhbGciOiJIUzI1NiIsInR5cCI6IkpXVCJ9.sub=3f2b8c1e-9a4d-4e6f-8b2a-1c5d7e9'',
                 rt_expires_at = 604800000\<rparr>,
                \<lparr>rt_id = ''r'', rt_user_id = ben_id,
                 rt_token_hash =
                   ''digest-eyJhbGciOiJIUzI1NiIsInR5cCI6IkpXVCJ9.sub=3f2b8c1e-9a4d-4e6f-8b2a-1c5d7e9'',
                 rt_expires_at = 604800000\<rparr>]\<rparr>,
          \<lparr>accessToken = ''access-'' @ ben_id,
           refreshToken = ''eyJhbGciOiJIUzI1NiIsInR5cCI6IkpXVCJ9.sub='' @ ben_id,
           user = \<lparr>us_id = ben_id, us_email = ''ben@x.com'', us_displayName = ''Ben''\<rparr>\<rparr>)"
  by (simp add: one_user_db_fields register_def findByEmail_def createUser_def issueTokens_def
        Let_def bcrypt72_collab_def sample_collab_def empty_db_def seven_days_def ben_id_def)

lemma two_users_db_fields:
  "two_users_db =
     empty_db
       \<lparr>users := [\<lparr>u_id = ann_id, u_email = ''ann@x.com'',
                   u_passwordHash = ''digest-password of ann'', u_displayName = ''Ann''\<rparr>,
                  \<lparr>u_id = ben_id, u_email = ''ben@x.com'',
                   u_passwordHash = ''digest-password of ben'', u_displayName = ''Ben''\<rparr>],
        refresh_tokens :=
          [\<lparr>rt_id = ''r'', rt_user_id = ann_id,
            rt_token_hash =
              ''digest-eyJhbGciOiJIUzI1NiIsInR5cCI6IkpXVCJ9.sub=3f2b8c1e-9a4d-4e6f-8b2a-1c5d7e9'',
            rt_expires_at = 604800000\<rparr>,
           \<lparr>rt_id = ''r'', rt_user_id = ben_id,
            rt_token_hash =
              ''digest-eyJhbGciOiJIUzI1NiIsInR5cCI6IkpXVCJ9.sub=3f2b8c1e-9a4d-4e6f-8b2a-1c5d7e9'',
            rt_expires_at = 604800000\<rparr>]\<rparr>"
  by (simp add: two_users_db_def two_users_db_eq)

text \<open>
  C10, as stated, fails with a hasher that accepts its own digests but reads a prefix
  only: after two users have registered, the second user's refresh token, presented at
  once, matches the first user's record first, and the tokens issued are the first
  user's.
\<close>

theorem refresh_round_trip_counterexample:
  "register (bcrypt72_collab ben_id) one_user_db ''ben@x.com'' ''password of ben'' ''Ben'' =
     Inr (two_users_db,
          \<lparr>accessToken = ''access-'' @ ben_id,
           refreshToken = ''eyJhbGciOiJIUzI1NiIsInR5cCI6IkpXVCJ9.sub='' @ ben_id,
           user = \<lparr>us_id = ben_id, us_email = ''ben@x.com'', us_displayName = ''Ben''\<rparr>\<rparr>) \<and>
   bcrypt_compare (bcrypt72_collab ''x'')
     (''eyJhbGciOiJIUzI1NiIsInR5cCI6IkpXVCJ9.sub='' @ ben_id)
     (bcrypt_hash (bcrypt72_collab ben_id)
        (''eyJhbGciOiJIUzI1NiIsInR5cCI6IkpXVCJ9.sub='' @ ben_id) 10) \<and>
   ann_id \<noteq> ben_id \<and>
   \<not> isl (refresh (bcrypt72_collab ''x'') two_users_db
            (''eyJhbGciOiJIUzI1NiIsInR5cCI6IkpXVCJ9.sub='' @ ben_id)) \<and>
   us_id (user (snd (projr (refresh (bcrypt72_collab ''x'') two_users_db
                              (''eyJhbGciOiJIUzI1NiIsInR5cCI6IkpXVCJ9.sub='' @ ben_id))))) =
     ann_id"
proof -
  have reg: "register (bcrypt72_collab ben_id) one_user_db ''ben@x.com'' ''password of ben'' ''Ben'' =
     Inr (two_users_db,
          \<lparr>accessToken = ''access-'' @ ben_id,
           refreshToken = ''eyJhbGciOiJIUzI1NiIsInR5cCI6IkpXVCJ9.sub='' @ ben_id,
           user = \<lparr>us_id = ben_id, us_email = ''ben@x.com'', us_displayName = ''Ben''\<rparr>\<rparr>)"
    by (simp add: two_users_db_eq two_users_db_fields)
  have cmp: "bcrypt_compare (bcrypt72_collab ''x'')
     (''eyJhbGciOiJIUzI1NiIsInR5cCI6IkpXVCJ9.sub='' @ ben_id)
     (bcrypt_hash (bcrypt72_collab ben_id)
        (''eyJhbGciOiJIUzI1NiIsInR5cCI6IkpXVCJ9.sub='' @ ben_id) 10)"
    by (simp add: bcrypt72_collab_def)
  have ne: "ann_id \<noteq> ben_id"
    by (simp add: ann_id_def ben_id_def)
  have run: "\<not> isl (refresh (bcrypt72_collab ''x'') two_users_db
            (''eyJhbGciOiJIUzI1NiIsInR5cCI6IkpXVCJ9.sub='' @ ben_id)) \<and>
      us_id (user (snd (projr (refresh (bcrypt72_collab ''x'') two_users_db
                              (''eyJhbGciOiJIUzI1NiIsInR5cCI6IkpXVCJ9.sub='' @ ben_id))))) =
        ann_id"
    by (simp add: refresh_def findById_def two_users_db_fields empty_db_def bcrypt72_collab_def
          ben_id_def ann_id_def issueTokens_def Let_def)
  show ?thesis
    using reg cmp ne run by simp
qed

lemma issued_by_preserved:
  assumes "X \<in> set W" and "issued_by W s"
    and "register X s e p d = Inr (s', res) \<or> login X s e p = Inr (s', res) \<or>
         refresh X s t = Inr (s', res)"
  shows "issued_by W s'"
proof -
  from issued [OF assms(3)] obtain s0 u where u: "u \<in> set (users s0)"
    and run: "issueTokens X s0 (u_id u) (u_email u) (u_displayName u) = (s', res)"
    and same: "refresh_tokens s0 = refresh_tokens s"
    and now: "db_now s0 = db_now s" and us: "set (users s) \<subseteq> set (users s0)"
    by (elim exE conjE)
  have s': "s' = fst (issueTokens X s0 (u_id u) (u_email u) (u_displayName u))"
    using run by simp
  have rows: "refresh_tokens s' = refresh_tokens s @
      [\<lparr>rt_id = gen_random_uuid X, rt_user_id = u_id u,
        rt_token_hash = bcrypt_hash X (jwt_sign X (RefreshClaims (u_id u))) 10,
        rt_expires_at = db_now s0 + seven_days\<rparr>]"
    by (simp add: s' issueTokens_store same)
  show ?thesis
    unfolding issued_by_def
  proof
    fix row assume "row \<in> set (refresh_tokens s')"
    then have "row \<in> set (refresh_tokens s) \<or>
        row = \<lparr>rt_id = gen_random_uuid X, rt_user_id = u_id u,
                rt_token_hash = bcrypt_hash X (jwt_sign X (RefreshClaims (u_id u))) 10,
                rt_expires_at = db_now s0 + seven_days\<rparr>"
      by (auto simp: rows)
    then show "\<exists>Z \<in> set W.
        rt_token_hash row = bcrypt_hash Z (jwt_sign Z (RefreshClaims (rt_user_id row))) 10"
    proof
      assume "row \<in> set (refresh_tokens s)"
      then show ?thesis
        using assms(2) unfolding issued_by_def by blast
    next
      assume "row = \<lparr>rt_id = gen_random_uuid X, rt_user_id = u_id u,
                rt_token_hash = bcrypt_hash X (jwt_sign X (RefreshClaims (u_id u))) 10,
                rt_expires_at = db_now s0 + seven_days\<rparr>"
      then have "rt_token_hash row = bcrypt_hash X (jwt_sign X (RefreshClaims (rt_user_id row))) 10"
        by simp
      then show ?thesis
        using assms(1) by blast
    qed
  qed
qed

lemma issued_token:
  assumes "register X s e p d = Inr (s', res) \<or> login X s e p = Inr (s', res) \<or>
           refresh X s t = Inr (s', res)"
  shows "refreshToken res = jwt_sign X (RefreshClaims (us_id (user res)))"
proof -
  from issued [OF assms] obtain s0 u where u: "u \<in> set (users s0)"
    and run: "issueTokens X s0 (u_id u) (u_email u) (u_displayName u) = (s', res)"
    and same: "refresh_tokens s0 = refresh_tokens s"
    and now: "db_now s0 = db_now s" and us: "set (users s) \<subseteq> set (users s0)"
    by (elim exE conjE)
  have "res = snd (issueTokens X s0 (u_id u) (u_email u) (u_displayName u))"
    using run by simp
  then show ?thesis
    by (simp add: issueTokens_result)
qed

lemma owner_from_contracts:
  assumes prov: "issued_by W s'" and X: "X \<in> set W"
    and exact: "\<forall>Z \<in> set W. \<forall>x y c. bcrypt_compare Y x (bcrypt_hash Z y c) \<longrightarrow> x = y"
    and differ: "\<forall>Z \<in> set W. \<forall>Z' \<in> set W. \<forall>u v.
                   jwt_sign Z (RefreshClaims u) = jwt_sign Z' (RefreshClaims v) \<longrightarrow> u = v"
    and row: "row \<in> set (refresh_tokens s')"
    and acc: "bcrypt_compare Y (jwt_sign X (RefreshClaims uid)) (rt_token_hash row)"
  shows "rt_user_id row = uid"
proof -
  obtain Z where Z: "Z \<in> set W"
    and h: "rt_token_hash row = bcrypt_hash Z (jwt_sign Z (RefreshClaims (rt_user_id row))) 10"
    using prov row unfolding issued_by_def by blast
  have "jwt_sign X (RefreshClaims uid) = jwt_sign Z (RefreshClaims (rt_user_id row))"
    using exact Z acc unfolding h by blast
  then show ?thesis
    using differ X Z by metis
qed

text \<open>
  C10 (amended).  Round trip of the refresh token.  Every successful register, login or
  refresh appends one refresh-token record for the user of the result: its hash is the
  hasher's digest of the returned refresh token and its expiry is seven days after the
  store's current time.  When the hasher accepts that digest for the token, a refresh
  made at once with the returned token succeeds and issues tokens for the same user,
  provided no stored non-expired record of another user is accepted for the token.
  That proviso holds on every store whose records were made by collaborators whose
  digests the hasher accepts for no other secret and whose refresh tokens differ
  between users, and register, login and refresh keep the store such.
\<close>

theorem refresh_round_trip:
  assumes "register X s e p d = Inr (s', res) \<or> login X s e p = Inr (s', res) \<or>
           refresh X s t = Inr (s', res)"
  shows "refresh_tokens s' = refresh_tokens s @
           [\<lparr>rt_id = gen_random_uuid X, rt_user_id = us_id (user res),
             rt_token_hash = bcrypt_hash X (refreshToken res) 10,
             rt_expires_at = db_now s' + seven_days\<rparr>] \<and>
         (bcrypt_compare Y (refreshToken res) (bcrypt_hash X (refreshToken res) 10) \<and>
          (\<forall>row \<in> set (refresh_tokens s').
              db_now s' < rt_expires_at row \<and>
              bcrypt_compare Y (refreshToken res) (rt_token_hash row) \<longrightarrow>
              rt_user_id row = us_id (user res)) \<longrightarrow>
          (\<exists>s'' res'. refresh Y s' (refreshToken res) = Inr (s'', res') \<and>
             us_id (user res') = us_id (user res))) \<and>
         (bcrypt_compare Y (refreshToken res) (bcrypt_hash X (refreshToken res) 10) \<and>
          X \<in> set W \<and> issued_by W s \<and>
          (\<forall>Z \<in> set W. \<forall>x y c. bcrypt_compare Y x (bcrypt_hash Z y c) \<longrightarrow> x = y) \<and>
          (\<forall>Z \<in> set W. \<forall>Z' \<in> set W. \<forall>u v.
              jwt_sign Z (RefreshClaims u) = jwt_sign Z' (RefreshClaims v) \<longrightarrow> u = v) \<longrightarrow>
          issued_by W s' \<and>
          (\<exists>s'' res'. refresh Y s' (refreshToken res) = Inr (s'', res') \<and>
             us_id (user res') = us_id (user res)))"
proof -
  from issued [OF assms] obtain s0 u where u: "u \<in> set (users s0)"
    and run: "issueTokens X s0 (u_id u) (u_email u) (u_displayName u) = (s', res)"
    and same: "refresh_tokens s0 = refresh_tokens s"
    and now: "db_now s0 = db_now s" and us: "set (users s) \<subseteq> set (users s0)"
    by (elim exE conjE)
  have rec: "refresh_tokens s' = refresh_tokens s @
           [\<lparr>rt_id = gen_random_uuid X, rt_user_id = us_id (user res),
             rt_token_hash = bcrypt_hash X (refreshToken res) 10,
             rt_expires_at = db_now s' + seven_days\<rparr>]"
    using issueTokens_record [OF run] by (simp add: same)
  have rt: "\<exists>s'' res'. refresh Y s' (refreshToken res) = Inr (s'', res') \<and>
             us_id (user res') = us_id (user res)"
    if "bcrypt_compare Y (refreshToken res) (bcrypt_hash X (refreshToken res) 10)"
      and "\<forall>row \<in> set (refresh_tokens s').
              db_now s' < rt_expires_at row \<and>
              bcrypt_compare Y (refreshToken res) (rt_token_hash row) \<longrightarrow>
              rt_user_id row = us_id (user res)"
    using issueTokens_round_trip [OF u run] that by blast
  have built: "issued_by W s' \<and>
          (\<exists>s'' res'. refresh Y s' (refreshToken res) = Inr (s'', res') \<and>
             us_id (user res') = us_id (user res))"
    if h: "bcrypt_compare Y (refreshToken res) (bcrypt_hash X (refreshToken res) 10)"
      and X: "X \<in> set W" and prov: "issued_by W s"
      and exact: "\<forall>Z \<in> set W. \<forall>x y c. bcrypt_compare Y x (bcrypt_hash Z y c) \<longrightarrow> x = y"
      and differ: "\<forall>Z \<in> set W. \<forall>Z' \<in> set W. \<forall>u v.
              jwt_sign Z (RefreshClaims u) = jwt_sign Z' (RefreshClaims v) \<longrightarrow> u = v"
  proof -
    have prov': "issued_by W s'"
      by (rule issued_by_preserved [OF X prov assms])
    have tok: "refreshToken res = jwt_sign X (RefreshClaims (us_id (user res)))"
      by (rule issued_token [OF assms])
    have "\<forall>row \<in> set (refresh_tokens s').
              db_now s' < rt_expires_at row \<and>
              bcrypt_compare Y (refreshToken res) (rt_token_hash row) \<longrightarrow>
              rt_user_id row = us_id (user res)"
    proof (intro ballI impI)
      fix row assume row: "row \<in> set (refresh_tokens s')"
        and "db_now s' < rt_expires_at row \<and>
              bcrypt_compare Y (refreshToken res) (rt_token_hash row)"
      then have "bcrypt_compare Y (jwt_sign X (RefreshClaims (us_id (user res)))) (rt_token_hash row)"
        using tok by simp
      then show "rt_user_id row = us_id (user res)"
        by (rule owner_from_contracts [OF prov' X exact differ row])
    qed
    then show ?thesis
      using prov' rt [OF h] by blast
  qed
  show ?thesis
    using rec rt built by blast
qed

theorem refresh_round_trip_witness:
  "register sample_collab empty_db ''a@x.com'' ''correct horse'' ''Alice'' =
     Inr (registered_db,
          \<lparr>accessToken = ''access-i'', refreshToken = ''refresh-i'',
           user = \<lparr>us_id = ''i'', us_email = ''a@x.com'', us_displayName = ''Alice''\<rparr>\<rparr>) \<and>
   refresh_tokens registered_db =
     [\<lparr>rt_id = ''r'', rt_user_id = ''i'', rt_token_hash = ''digest-refresh-i'',
       rt_expires_at = 604800000\<rparr>] \<and>
   bcrypt_compare sample_collab ''refresh-i'' (bcrypt_hash sample_collab ''refresh-i'' 10) \<and>
   \<not> isl (refresh sample_collab registered_db ''refresh-i'') \<and>
   us_id (user (snd (projr (refresh sample_collab registered_db ''refresh-i'')))) = ''i'' \<and>
   register (sample_collab\<lparr>uuidv4 := \<lambda>n. ''j''\<rparr>) registered_db ''b@x.com'' ''battery staple''
       ''Bob'' =
     Inr (registered_db
            \<lparr>users := users registered_db @
               [\<lparr>u_id = ''j'', u_email = ''b@x.com'', u_passwordHash = ''digest-battery staple'',
                 u_displayName = ''Bob''\<rparr>],
             refresh_tokens := refresh_tokens registered_db @
               [\<lparr>rt_id = ''r'', rt_user_id = ''j'', rt_token_hash = ''digest-refresh-j'',
                 rt_expires_at = 604800000\<rparr>]\<rparr>,
          \<lparr>accessToken = ''access-j'', refreshToken = ''refresh-j'',
           user = \<lparr>us_id = ''j'', us_email = ''b@x.com'', us_displayName = ''Bob''\<rparr>\<rparr>) \<and>
   \<not> isl (refresh sample_collab
            (registered_db
               \<lparr>users := users registered_db @
                  [\<lparr>u_id = ''j'', u_email = ''b@x.com'',
                    u_passwordHash = ''digest-battery staple'', u_displayName = ''Bob''\<rparr>],
                refresh_tokens := refresh_tokens registered_db @
                  [\<lparr>rt_id = ''r'', rt_user_id = ''j'', rt_token_hash = ''digest-refresh-j'',
                    rt_expires_at = 604800000\<rparr>]\<rparr>)
            ''refresh-j'') \<and>
   us_id (user (snd (projr (refresh sample_collab
            (registered_db
               \<lparr>users := users registered_db @
                  [\<lparr>u_id = ''j'', u_email = ''b@x.com'',
                    u_passwordHash = ''digest-battery staple'', u_displayName = ''Bob''\<rparr>],
                refresh_tokens := refresh_tokens registered_db @
                  [\<lparr>rt_id = ''r'', rt_user_id = ''j'', rt_token_hash = ''digest-refresh-j'',
                    rt_expires_at = 604800000\<rparr>]\<rparr>)
            ''refresh-j'')))) = ''j''"
proof -
  let ?res = "\<lparr>accessToken = ''access-i'', refreshToken = ''refresh-i'',
           user = \<lparr>us_id = ''i'', us_email = ''a@x.com'', us_displayName = ''Alice''\<rparr>\<rparr>"
  let ?Xb = "sample_collab\<lparr>uuidv4 := \<lambda>n. ''j''\<rparr>"
  let ?s2 = "registered_db
               \<lparr>users := users registered_db @
                  [\<lparr>u_id = ''j'', u_email = ''b@x.com'',
                    u_passwordHash = ''digest-battery staple'', u_displayName = ''Bob''\<rparr>],
                refresh_tokens := refresh_tokens registered_db @
                  [\<lparr>rt_id = ''r'', rt_user_id = ''j'', rt_token_hash = ''digest-refresh-j'',
                    rt_expires_at = 604800000\<rparr>]\<rparr>"
  let ?res2 = "\<lparr>accessToken = ''access-j'', refreshToken = ''refresh-j'',
           user = \<lparr>us_id = ''j'', us_email = ''b@x.com'', us_displayName = ''Bob''\<rparr>\<rparr>"
  let ?W = "[sample_collab, ?Xb]"
  have reg: "register sample_collab empty_db ''a@x.com'' ''correct horse'' ''Alice'' =
      Inr (registered_db, ?res)"
    by (simp add: registered_db_eq registered_db_fields)
  have rows: "refresh_tokens registered_db =
      [\<lparr>rt_id = ''r'', rt_user_id = ''i'', rt_token_hash = ''digest-refresh-i'',
        rt_expires_at = 604800000\<rparr>]"
    by (simp add: registered_db_fields empty_db_def)
  have cmp: "bcrypt_compare sample_collab ''refresh-i'' (bcrypt_hash sample_collab ''refresh-i'' 10)"
    by (simp add: sample_collab_def)
  have own: "\<forall>row \<in> set (refresh_tokens registered_db).
      db_now registered_db < rt_expires_at row \<and>
      bcrypt_compare sample_collab ''refresh-i'' (rt_token_hash row) \<longrightarrow>
      rt_user_id row = ''i''"
    by (simp add: rows)
  have "\<exists>s'' res'. refresh sample_collab registered_db ''refresh-i'' = Inr (s'', res') \<and>
      us_id (user res') = ''i''"
    using refresh_round_trip [where X = sample_collab and s = empty_db and e = "''a@x.com''"
        and p = "''correct horse''" and d = "''Alice''" and s' = registered_db and res = ?res
        and Y = sample_collab, THEN conjunct2, THEN conjunct1] reg cmp own
    by simp
  then have one: "\<not> isl (refresh sample_collab registered_db ''refresh-i'') \<and>
      us_id (user (snd (projr (refresh sample_collab registered_db ''refresh-i'')))) = ''i''"
    by auto
  have reg2: "register ?Xb registered_db ''b@x.com'' ''battery staple'' ''Bob'' = Inr (?s2, ?res2)"
    by (simp add: registered_db_fields register_def findByEmail_def createUser_def
          issueTokens_def Let_def sample_collab_def empty_db_def seven_days_def)
  have cmp2: "bcrypt_compare sample_collab (refreshToken ?res2)
      (bcrypt_hash ?Xb (refreshToken ?res2) 10)"
    by (simp add: sample_collab_def)
  have mem: "?Xb \<in> set ?W"
    by simp
  have prov: "issued_by ?W registered_db"
    by (simp add: issued_by_def rows sample_collab_def)
  have exact: "\<forall>Z \<in> set ?W. \<forall>x y c.
      bcrypt_compare sample_collab x (bcrypt_hash Z y c) \<longrightarrow> x = y"
    by (simp add: sample_collab_def)
  have differ: "\<forall>Z \<in> set ?W. \<forall>Z' \<in> set ?W. \<forall>u v.
      jwt_sign Z (RefreshClaims u) = jwt_sign Z' (RefreshClaims v) \<longrightarrow> u = v"
    by (simp add: sample_collab_def)
  note rt2 = refresh_round_trip [OF disjI1 [OF reg2], where Y = sample_collab and W = ?W,
      THEN conjunct2, THEN conjunct2]
  have "issued_by ?W ?s2 \<and>
      (\<exists>s'' res'. refresh sample_collab ?s2 (refreshToken ?res2) = Inr (s'', res') \<and>
         us_id (user res') = us_id (user ?res2))"
    by (rule rt2 [THEN mp]) (intro conjI cmp2 mem prov exact differ)
  then have "\<exists>s'' res'. refresh sample_collab ?s2 ''refresh-j'' = Inr (s'', res') \<and>
      us_id (user res') = ''j''"
    by simp
  then have two: "\<not> isl (refresh sample_collab ?s2 ''refresh-j'') \<and>
      us_id (user (snd (projr (refresh sample_collab ?s2 ''refresh-j'')))) = ''j''"
    by auto
  show ?thesis
    using reg rows cmp one reg2 two by simp
qed

end
